theory Spec2Isabelle
  imports Main
begin

section \<open>JavaScript strings\<close>

text \<open>
  A JavaScript string is modelled as a \<^typ>\<open>string\<close>: a list of code units, here the
  code units U+0000 to U+00FF. The helpers below are the methods of
  \<^verbatim>\<open>String.prototype\<close> and the two regular expressions that \<^verbatim>\<open>src/utils.js\<close> uses,
  each on that range.
\<close>

definition is_digit :: "char \<Rightarrow> bool" where
  \<comment> \<open>the class \<^verbatim>\<open>[0-9]\<close>\<close>
  "is_digit c = (c \<in> set ''0123456789'')"

definition printable :: "char \<Rightarrow> bool" where
  \<comment> \<open>the class \<^verbatim>\<open>[ -~]\<close>: U+0020 to U+007E\<close>
  "printable c = (32 \<le> (of_char c :: nat) \<and> (of_char c :: nat) \<le> 126)"

definition is_whitespace :: "char \<Rightarrow> bool" where
  \<comment> \<open>what \<^verbatim>\<open>trim\<close> removes: TAB, LF, VT, FF, CR, SPACE and NBSP\<close>
  "is_whitespace c = ((of_char c :: nat) \<in> set [9, 10, 11, 12, 13, 32, 160])"

definition trim :: "string \<Rightarrow> string" where
  "trim s = rev (dropWhile is_whitespace (rev (dropWhile is_whitespace s)))"

definition toLowerCase_char :: "char \<Rightarrow> char" where
  "toLowerCase_char c =
     (let n = (of_char c :: nat) in
      if (65 \<le> n \<and> n \<le> 90) \<or> (192 \<le> n \<and> n \<le> 222 \<and> n \<noteq> 215)
      then char_of (n + 32) else c)"

definition toLowerCase :: "string \<Rightarrow> string" where
  "toLowerCase s = map toLowerCase_char s"

fun includes_str :: "string \<Rightarrow> string \<Rightarrow> bool" where
  \<comment> \<open>\<^verbatim>\<open>s.includes(sub)\<close>\<close>
  "includes_str [] sub = (sub = [])"
| "includes_str (c # cs) sub = (take (length sub) (c # cs) = sub \<or> includes_str cs sub)"

fun split_str :: "char \<Rightarrow> string \<Rightarrow> string list" where
  \<comment> \<open>\<^verbatim>\<open>s.split(sep)\<close> for a separator of one character\<close>
  "split_str sep [] = [[]]"
| "split_str sep (c # cs) =
     (if c = sep then [] # split_str sep cs
      else (case split_str sep cs of
              [] \<Rightarrow> [[c]]
            | g # gs \<Rightarrow> (c # g) # gs))"

fun join_str :: "string \<Rightarrow> string list \<Rightarrow> string" where
  \<comment> \<open>\<^verbatim>\<open>xs.join(sep)\<close>\<close>
  "join_str sep [] = []"
| "join_str sep [x] = x"
| "join_str sep (x # y # ys) = x @ sep @ join_str sep (y # ys)"

definition replace_slash :: "string \<Rightarrow> string" where
  \<comment> \<open>\<^verbatim>\<open>s.replace("/", "")\<close>: a string pattern replaces the first occurrence only\<close>
  "replace_slash s = remove1 (CHR ''/'') s"

definition strip_unprintable :: "string \<Rightarrow> string" where
  \<comment> \<open>\<^verbatim>\<open>s.replace(/[^ -~]+/g, "")\<close>\<close>
  "strip_unprintable s = filter printable s"

definition test_digits_dots :: "string \<Rightarrow> bool" where
  \<comment> \<open>\<^verbatim>\<open>/^[0-9.]+$/.test(s)\<close>\<close>
  "test_digits_dots s = (s \<noteq> [] \<and> list_all (\<lambda>c. is_digit c \<or> c = CHR ''.'') s)"

definition template :: "string option \<Rightarrow> string" where
  \<comment> \<open>a value placed in a template literal; an absent property reads \<^verbatim>\<open>undefined\<close>\<close>
  "template v = (case v of None \<Rightarrow> ''undefined'' | Some s \<Rightarrow> s)"

section \<open>Errors, calls and results\<close>

datatype js_error = Error string | TypeError string

definition err_text :: "js_error \<Rightarrow> string" where
  \<comment> \<open>\<^verbatim>\<open>err.message || err\<close> placed in a template literal\<close>
  "err_text err =
     (case err of
        Error m \<Rightarrow> (if m = [] then ''Error'' else m)
      | TypeError m \<Rightarrow> (if m = [] then ''TypeError'' else m))"

text \<open>
  An argument of \<^verbatim>\<open>console.error\<close> is a string or a thrown value. The expression
  \<^verbatim>\<open>err.message || err\<close>, passed as an argument of its own, is the message when the
  message is not empty, and the thrown value itself otherwise.
\<close>

datatype log_arg = Text string | Thrown js_error

definition message_or_err :: "js_error \<Rightarrow> log_arg" where
  "message_or_err err =
     (case err of
        Error m \<Rightarrow> (if m = [] then Thrown err else Text m)
      | TypeError m \<Rightarrow> (if m = [] then Thrown err else Text m))"

text \<open>
  Every call that leaves the process is recorded, in order, next to the result: a
  function of the program returns the calls it made and either the error it threw
  (\<open>Inl\<close>) or its value (\<open>Inr\<close>). A call of \<^verbatim>\<open>console.error\<close> is recorded with
  its arguments as they are passed, before any formatting.
\<close>

datatype call =
    ListContainers
  | Inspect string
  | Exec string "string list"
  | Fetch string
  | ConsoleError "log_arg list"

type_synonym 'a eff = "call list \<times> (js_error + 'a)"

definition return_eff :: "'a \<Rightarrow> 'a eff" where
  "return_eff x = ([], Inr x)"

definition throw_eff :: "js_error \<Rightarrow> 'a eff" where
  "throw_eff e = ([], Inl e)"

definition bind_eff :: "'a eff \<Rightarrow> ('a \<Rightarrow> 'b eff) \<Rightarrow> 'b eff" where
  \<comment> \<open>\<^verbatim>\<open>const x = await m; ...\<close>\<close>
  "bind_eff m f =
     (case m of
        (cs, Inl e) \<Rightarrow> (cs, Inl e)
      | (cs, Inr x) \<Rightarrow> (case f x of (cs', r) \<Rightarrow> (cs @ cs', r)))"

definition catch_eff :: "'a eff \<Rightarrow> (js_error \<Rightarrow> 'a eff) \<Rightarrow> 'a eff" where
  \<comment> \<open>\<^verbatim>\<open>try { m } catch (err) { ... }\<close>\<close>
  "catch_eff m h =
     (case m of
        (cs, Inl e) \<Rightarrow> (case h e of (cs', r) \<Rightarrow> (cs @ cs', r))
      | (cs, Inr x) \<Rightarrow> (cs, Inr x))"

section \<open>The container engine and the network\<close>

record container_info =
  Names :: "string list option"
  Id' :: string

record container_state =
  Running :: bool
  Status :: string

record port_binding =
  HostIp :: string
  HostPort :: string

record network_settings =
  \<comment> \<open>the entries of the \<^verbatim>\<open>Ports\<close> object, as \<^verbatim>\<open>Object.entries\<close> lists them\<close>
  Ports :: "(string \<times> port_binding list option) list option"

record inspect_data =
  Name :: "string option"
  State :: container_state
  Os :: "string option"
  NetworkSettings :: "network_settings option"

record geo_fields =
  status :: "string option"
  country :: "string option"
  city :: "string option"

datatype json_body = JsonNull | JsonFields geo_fields

datatype response = InvalidJson js_error | Json json_body

text \<open>
  One run of the tool sees the engine and the network as they answer during that run:
  the world gives, for each call, either the error the call throws or its answer. The
  answer of \<^verbatim>\<open>exec\<close> is the text read from the stream and the \<^verbatim>\<open>ExitCode\<close> of the
  finished process.
\<close>

record world =
  on_listContainers :: "js_error + container_info list"
  on_inspect :: "string \<Rightarrow> js_error + inspect_data"
  on_exec :: "string \<Rightarrow> string list \<Rightarrow> js_error + (string \<times> int)"
  on_fetch :: "string \<Rightarrow> js_error + response"
  env_DEBUG :: bool

definition listContainers :: "world \<Rightarrow> container_info list eff" where
  "listContainers w = ([ListContainers], on_listContainers w)"

definition inspect :: "world \<Rightarrow> string \<Rightarrow> inspect_data eff" where
  "inspect w containerId = ([Inspect containerId], on_inspect w containerId)"

definition exec :: "world \<Rightarrow> string \<Rightarrow> string list \<Rightarrow> (string \<times> int) eff" where
  "exec w containerId command = ([Exec containerId command], on_exec w containerId command)"

definition fetch :: "world \<Rightarrow> string \<Rightarrow> response eff" where
  "fetch w url = ([Fetch url], on_fetch w url)"

definition response_json :: "response \<Rightarrow> json_body eff" where
  "response_json r = (case r of InvalidJson e \<Rightarrow> throw_eff e | Json b \<Rightarrow> return_eff b)"

definition console_error :: "log_arg list \<Rightarrow> unit eff" where
  "console_error args = ([ConsoleError args], Inr ())"

section \<open>Plain objects used as maps\<close>

text \<open>
  The name-to-id map is a plain object. Its own properties are kept in the order of
  their creation; writing an existing key keeps the key's place. Enumeration
  (\<^verbatim>\<open>Object.keys\<close>, \<^verbatim>\<open>Object.values\<close>, \<^verbatim>\<open>Object.entries\<close>) lists the keys that are
  array indices first, in ascending numeric order, then the other keys in creation order.
\<close>

type_synonym js_object = "(string \<times> string) list"

fun set_property :: "string \<Rightarrow> string \<Rightarrow> js_object \<Rightarrow> js_object" where
  "set_property k v [] = [(k, v)]"
| "set_property k v ((k', v') # ps) =
     (if k' = k then (k, v) # ps else (k', v') # set_property k v ps)"

definition Object_fromEntries :: "(string \<times> string) list \<Rightarrow> js_object" where
  "Object_fromEntries es = foldl (\<lambda>obj (k, v). set_property k v obj) [] es"

definition parse_nat :: "string \<Rightarrow> nat" where
  "parse_nat s = foldl (\<lambda>n c. 10 * n + ((of_char c :: nat) - 48)) 0 s"

definition is_array_index :: "string \<Rightarrow> bool" where
  \<comment> \<open>a canonical numeric string below \<open>2^32 - 1\<close>\<close>
  "is_array_index k =
     (k \<noteq> [] \<and> list_all is_digit k \<and> (k = ''0'' \<or> hd k \<noteq> CHR ''0'')
      \<and> parse_nat k < 4294967295)"

definition Object_entries :: "js_object \<Rightarrow> (string \<times> string) list" where
  "Object_entries obj =
     sort_key (\<lambda>(k, v). parse_nat k) (filter (\<lambda>(k, v). is_array_index k) obj)
     @ filter (\<lambda>(k, v). \<not> is_array_index k) obj"

definition Object_keys :: "js_object \<Rightarrow> string list" where
  "Object_keys obj = map fst (Object_entries obj)"

definition Object_values :: "js_object \<Rightarrow> string list" where
  "Object_values obj = map snd (Object_entries obj)"

definition get_property :: "js_object \<Rightarrow> string \<Rightarrow> string option" where
  \<comment> \<open>\<^verbatim>\<open>obj[k]\<close>, when it is a string\<close>
  "get_property obj k = map_of obj k"

section \<open>\<^verbatim>\<open>src/utils.js\<close>\<close>

text \<open>
  Container ids are strings in the model, so the test
  \<^verbatim>\<open>!containerId || typeof containerId !== "string"\<close> is the test for the empty string,
  and a command is always an array.
\<close>

fun filter_Boolean :: "string option list \<Rightarrow> string list" where
  \<comment> \<open>\<^verbatim>\<open>.filter(Boolean)\<close> on an array of strings and \<^verbatim>\<open>null\<close>\<close>
  "filter_Boolean [] = []"
| "filter_Boolean (None # xs) = filter_Boolean xs"
| "filter_Boolean (Some s # xs) = (if s = [] then filter_Boolean xs else s # filter_Boolean xs)"

definition getContainerPorts :: "world \<Rightarrow> string \<Rightarrow> string list eff" where
  "getContainerPorts w containerId =
     (if containerId = [] then
        throw_eff (Error ''Invalid containerId provided to getContainerPorts'')
      else
        catch_eff
          (bind_eff (inspect w containerId) (\<lambda>data.
             let ports =
               (case NetworkSettings data of
                  None \<Rightarrow> []
                | Some ns \<Rightarrow> (case Ports ns of None \<Rightarrow> [] | Some ps \<Rightarrow> ps))
             in return_eff
                  (filter_Boolean
                     (map (\<lambda>(containerPort, bindings).
                             case bindings of
                               None \<Rightarrow> None
                             | Some bs \<Rightarrow>
                                 if bs = [] then None
                                 else Some (join_str '', ''
                                        (map (\<lambda>b. HostIp b @ '':'' @ HostPort b @ ''->''
                                                    @ containerPort) bs)))
                          ports))))
          (\<lambda>err. throw_eff (Error (''Failed to get ports for container '' @ containerId
                                     @ '': '' @ err_text err))))"

record exec_result =
  "output" :: string
  exitCode :: int

definition curlCmd :: string where
  "curlCmd = ''curl -s https://api.ipify.org''"

definition cmd :: "string \<Rightarrow> string list" where
  \<comment> \<open>the constant \<^verbatim>\<open>cmd\<close> of \<^verbatim>\<open>getPublicIP\<close>, as a function of \<^verbatim>\<open>osType\<close>\<close>
  "cmd osType =
     (if includes_str osType ''win'' then split_str (CHR '' '') curlCmd
      else [''sh'', ''-c'', curlCmd])"

definition getPublicIP ::
  "(string \<Rightarrow> string list \<Rightarrow> exec_result eff) \<Rightarrow> (string \<Rightarrow> string eff) option
     \<Rightarrow> string \<Rightarrow> string option eff" where
  \<comment> \<open>the two functions are parameters in the source; \<^verbatim>\<open>getContainerOsType?.(...)\<close>
      gives \<^verbatim>\<open>undefined\<close> when none is passed, and \<^verbatim>\<open>osType.includes\<close> then throws\<close>
  "getPublicIP runCommand getContainerOsType containerId =
     (if containerId = [] then
        throw_eff (Error ''Invalid containerId provided to getPublicIP'')
      else
        bind_eff
          (case getContainerOsType of
             None \<Rightarrow> return_eff None
           | Some f \<Rightarrow> bind_eff (f containerId) (\<lambda>s. return_eff (Some s)))
          (\<lambda>osType.
             case osType of
               None \<Rightarrow>
                 throw_eff (TypeError (''Cannot read properties of undefined (reading ''
                                       @ [CHR 0x27] @ ''includes'' @ [CHR 0x27] @ '')''))
             | Some os \<Rightarrow>
                 bind_eff (runCommand containerId (cmd os)) (\<lambda>r.
                   if exitCode r = 0 \<and> test_digits_dots (trim (output r))
                   then return_eff (Some (trim (output r)))
                   else return_eff None)))"

definition runCommand :: "world \<Rightarrow> string \<Rightarrow> string list \<Rightarrow> exec_result eff" where
  "runCommand w containerId command =
     (if containerId = [] then
        throw_eff (Error ''Invalid containerId provided to runCommand'')
      else
        catch_eff
          (bind_eff (exec w containerId command) (\<lambda>(stream, ExitCode).
             return_eff \<lparr>output = trim (strip_unprintable stream), exitCode = ExitCode\<rparr>))
          (\<lambda>err. throw_eff (Error (''Failed to run command in container '' @ containerId
                                     @ '': '' @ err_text err))))"

definition getContainerOsType :: "world \<Rightarrow> string \<Rightarrow> string eff" where
  "getContainerOsType w containerId =
     (if containerId = [] then
        throw_eff (Error ''Invalid containerId provided to getContainerOsType'')
      else
        catch_eff
          (bind_eff (inspect w containerId) (\<lambda>containerData.
             return_eff
               (case Os containerData of
                  None \<Rightarrow> ''linux''
                | Some os \<Rightarrow> (if toLowerCase os = [] then ''linux'' else toLowerCase os))))
          (\<lambda>err. throw_eff (Error (''Failed to get OS type for container '' @ containerId
                                     @ '': '' @ err_text err))))"

definition container_key :: "container_info \<Rightarrow> string" where
  \<comment> \<open>\<^verbatim>\<open>Names?.[0]?.replace("/", "") || "Unknown"\<close>\<close>
  "container_key c =
     (case Names c of
        None \<Rightarrow> ''Unknown''
      | Some [] \<Rightarrow> ''Unknown''
      | Some (n # ns) \<Rightarrow> (if replace_slash n = [] then ''Unknown'' else replace_slash n))"

definition getContainerMap :: "world \<Rightarrow> js_object eff" where
  "getContainerMap w =
     catch_eff
       (bind_eff (listContainers w) (\<lambda>containers.
          return_eff (Object_fromEntries (map (\<lambda>c. (container_key c, Id' c)) containers))))
       (\<lambda>err. throw_eff (Error (''Failed to list Docker containers: '' @ err_text err)))"

definition getLocation :: "world \<Rightarrow> string \<Rightarrow> string eff" where
  "getLocation w ip =
     (if ip = [] then
        throw_eff (Error ''Invalid IP address provided to getLocation'')
      else
        catch_eff
          (bind_eff (fetch w (''http://ip-api.com/json/'' @ ip)) (\<lambda>response.
           bind_eff (response_json response) (\<lambda>data.
             case data of
               JsonNull \<Rightarrow>
                 throw_eff (TypeError (''Cannot read properties of null (reading ''
                                       @ [CHR 0x27] @ ''status'' @ [CHR 0x27] @ '')''))
             | JsonFields d \<Rightarrow>
                 if status d = Some ''fail'' then return_eff ''Unknown''
                 else return_eff (template (country d) @ '', '' @ template (city d)))))
          (\<lambda>err.
             bind_eff
               (if env_DEBUG w then
                  console_error [Text (''[DEBUG] Failed to get location for IP '' @ ip @ '':''),
                                 message_or_err err]
                else return_eff ())
               (\<lambda>_. return_eff ''Lookup Failed'')))"

type_synonym status_row = "string \<times> string \<times> string"

definition name :: "inspect_data \<Rightarrow> string" where
  \<comment> \<open>the constant \<^verbatim>\<open>name\<close> of \<^verbatim>\<open>getContainerStatus\<close>\<close>
  "name containerData =
     (case Name containerData of
        None \<Rightarrow> ''Unknown Container''
      | Some n \<Rightarrow> (if n = [] then ''Unknown Container'' else replace_slash n))"

definition getContainerStatus :: "world \<Rightarrow> string \<Rightarrow> status_row eff" where
  "getContainerStatus w containerId =
     (if containerId = [] then
        throw_eff (Error ''Invalid containerId provided to getContainerStatus'')
      else
        catch_eff
          (bind_eff (inspect w containerId) (\<lambda>containerData.
             if \<not> Running (State containerData) then
               return_eff (name containerData,
                           ''Container '' @ Status (State containerData), ''Unknown'')
             else
               bind_eff (getPublicIP (runCommand w) (Some (getContainerOsType w)) containerId)
                 (\<lambda>ip.
                    case ip of
                      None \<Rightarrow> return_eff (name containerData, ''Retrieval failed'', ''Unknown'')
                    | Some a \<Rightarrow>
                        if a = [] then return_eff (name containerData, a, ''Unknown'')
                        else bind_eff (getLocation w a) (\<lambda>location.
                               return_eff (name containerData, a, location)))))
          (\<lambda>err. throw_eff (Error (''Failed to get status for container '' @ containerId
                                     @ '': '' @ err_text err))))"

section \<open>\<^verbatim>\<open>docker-ip-retrieval.js\<close>\<close>

datatype ports_output = NoContainersFound | PortsTable "(string \<times> string) list"

fun portRows_loop ::
  "world \<Rightarrow> (string \<times> string) list \<Rightarrow> call list \<times> (string \<times> string) list
     \<Rightarrow> call list \<times> (string \<times> string) list" where
  \<comment> \<open>the \<^verbatim>\<open>for (const [name, id] of entries)\<close> loop, pushing onto \<^verbatim>\<open>portRows\<close>\<close>
  "portRows_loop w [] acc = acc"
| "portRows_loop w ((key, containerId) # entries) (calls, portRows) =
     (case getContainerPorts w containerId of
        (cs, Inr ports) \<Rightarrow>
          portRows_loop w entries
            (calls @ cs,
             portRows @ [(key, if ports \<noteq> [] then join_str [CHR 0x0A] ports
                                else ''No ports exposed'')])
      | (cs, Inl err) \<Rightarrow>
          portRows_loop w entries
            (calls @ cs,
             portRows @ [(key, ''Error retrieving ports ('' @ err_text err @ '')'')]))"

definition listContainerPorts :: "world \<Rightarrow> js_object \<Rightarrow> call list \<times> ports_output" where
  "listContainerPorts w containerMap =
     (let entries = Object_entries containerMap in
      if entries = [] then ([], NoContainersFound)
      else (case portRows_loop w entries ([], []) of
              (calls, portRows) \<Rightarrow> (calls, PortsTable portRows)))"

text \<open>
  \<^verbatim>\<open>Promise.all\<close> is fulfilled with the values, in the order of its input, when every
  input is fulfilled. It is rejected as soon as one input is rejected, with that input's
  reason: which one comes first is a matter of timing, so the model keeps the reasons of
  all rejected inputs, in input order, and the reason of the rejection is one of them.
\<close>

datatype 'a outcome =
    Fulfilled 'a
  | Rejected "js_error list"
  | ProcessExit int "log_arg list"

fun Promise_all :: "(js_error + 'a) list \<Rightarrow> 'a list outcome" where
  "Promise_all [] = Fulfilled []"
| "Promise_all (Inl e # ps) =
     (case Promise_all ps of Rejected es \<Rightarrow> Rejected (e # es) | _ \<Rightarrow> Rejected [e])"
| "Promise_all (Inr x # ps) =
     (case Promise_all ps of Fulfilled xs \<Rightarrow> Fulfilled (x # xs) | other \<Rightarrow> other)"

text \<open>
  The prompt is the user's: its outcome, the name chosen or the error it threw, is an
  input of \<open>getSelectedContainerResults\<close>. The \<^verbatim>\<open>catch\<close> of the function passes
  \<^verbatim>\<open>Prompt failed:\<close> and \<^verbatim>\<open>err.message || err\<close> to \<^verbatim>\<open>console.error\<close> and leaves the
  process with code 1, which \<open>ProcessExit\<close> records with those arguments; the promise of
  \<^verbatim>\<open>Promise.all\<close> is returned without \<^verbatim>\<open>await\<close>, so its rejection passes that
  \<^verbatim>\<open>catch\<close> by and rejects the promise of the function. A name that is no key of the map
  reads as \<^verbatim>\<open>undefined\<close>, which \<open>getContainerStatus\<close> refuses.
\<close>

definition getSelectedContainerResults ::
  "world \<Rightarrow> js_error + string \<Rightarrow> js_object \<Rightarrow> status_row list outcome" where
  "getSelectedContainerResults w prompt containerMap =
     (case prompt of
        Inl err \<Rightarrow> ProcessExit 1 [Text ''Prompt failed:'', message_or_err err]
      | Inr selected \<Rightarrow>
          let ids = Object_values containerMap in
          if selected = ''All'' then
            Promise_all (map (\<lambda>containerId. snd (getContainerStatus w containerId)) ids)
          else
            (case (case get_property containerMap selected of
                     None \<Rightarrow> Inl (Error ''Invalid containerId provided to getContainerStatus'')
                   | Some containerId \<Rightarrow> snd (getContainerStatus w containerId)) of
               Inl err \<Rightarrow> ProcessExit 1 [Text ''Prompt failed:'', message_or_err err]
             | Inr row \<Rightarrow> Fulfilled [row]))"

section \<open>The pattern of the specification\<close>

text \<open>
  The specification describes the accepted output as one or more digit groups separated
  by exactly three dots. This predicate follows those words; it is not taken from the
  code, and serves to compare the two.
\<close>

definition spec_ipv4_pattern :: "string \<Rightarrow> bool" where
  "spec_ipv4_pattern s =
     (length (split_str (CHR ''.'') s) = 4
      \<and> list_all (\<lambda>g. g \<noteq> [] \<and> list_all is_digit g) (split_str (CHR ''.'') s))"

section \<open>A sample engine\<close>

text \<open>
  An engine with eight containers, used to run the functions on concrete inputs:
  \<open>a1\<close> (web) runs and answers with an address, behind the eight bytes of a stream
  frame header; \<open>b2\<close> (db) has exited; \<open>c3\<close> (api) runs and its command prints an
  error text; in \<open>d4\<close> (job) the exec call throws; \<open>e5\<close> (odd) prints digits without
  dots; \<open>f6\<close> (iis) is a Windows container; \<open>g7\<close> cannot be inspected, though a
  command would run in it; \<open>h8\<close> (dns) prints two digits around two adjacent dots. Any
  other id is unknown to the engine.
\<close>

definition demo_inspect :: "string \<Rightarrow> js_error + inspect_data" where
  "demo_inspect containerId =
     (if containerId = ''a1'' then
        Inr \<lparr>Name = Some ''/web'', State = \<lparr>Running = True, Status = ''running''\<rparr>,
             Os = None,
             NetworkSettings = Some \<lparr>Ports = Some
               [(''80/tcp'', Some [\<lparr>HostIp = ''0.0.0.0'', HostPort = ''8080''\<rparr>]),
                (''443/tcp'', None)]\<rparr>\<rparr>
      else if containerId = ''b2'' then
        Inr \<lparr>Name = Some ''/db'', State = \<lparr>Running = False, Status = ''exited''\<rparr>,
             Os = Some ''linux'', NetworkSettings = Some \<lparr>Ports = Some []\<rparr>\<rparr>
      else if containerId = ''c3'' then
        Inr \<lparr>Name = Some ''/api'', State = \<lparr>Running = True, Status = ''running''\<rparr>,
             Os = Some ''linux'', NetworkSettings = None\<rparr>
      else if containerId = ''d4'' then
        Inr \<lparr>Name = Some ''/job'', State = \<lparr>Running = True, Status = ''running''\<rparr>,
             Os = Some ''linux'', NetworkSettings = None\<rparr>
      else if containerId = ''e5'' then
        Inr \<lparr>Name = Some ''/odd'', State = \<lparr>Running = True, Status = ''running''\<rparr>,
             Os = Some ''linux'', NetworkSettings = None\<rparr>
      else if containerId = ''f6'' then
        Inr \<lparr>Name = Some ''/iis'', State = \<lparr>Running = True, Status = ''running''\<rparr>,
             Os = Some ''Windows'', NetworkSettings = None\<rparr>
      else if containerId = ''g7'' then Inl (Error ''socket hang up'')
      else if containerId = ''h8'' then
        Inr \<lparr>Name = Some ''/dns'', State = \<lparr>Running = True, Status = ''running''\<rparr>,
             Os = Some ''linux'', NetworkSettings = None\<rparr>
      else Inl (Error ''no such container''))"

definition demo_exec :: "string \<Rightarrow> string list \<Rightarrow> js_error + (string \<times> int)" where
  "demo_exec containerId command =
     (if containerId = ''a1'' then
        Inr ([CHR 0x01, CHR 0x00, CHR 0x00, CHR 0x00, CHR 0x00, CHR 0x00, CHR 0x00, CHR 0x0C]
             @ ''203.0.113.7'' @ [CHR 0x0A], 0)
      else if containerId = ''c3'' then Inr (''connection refused'', 0)
      else if containerId = ''e5'' then Inr (''12345'', 0)
      else if containerId = ''f6'' \<and> command = [''curl'', ''-s'', ''https://api.ipify.org'']
        then Inr (''198.51.100.4'', 0)
      else if containerId = ''g7'' then Inr (''192.0.2.1'', 0)
      else if containerId = ''h8'' then Inr (''1..2'', 0)
      else Inl (Error ''exec failed''))"

definition demo_fetch :: "string \<Rightarrow> js_error + response" where
  "demo_fetch url =
     (if url = ''http://ip-api.com/json/203.0.113.7'' \<or> url = ''http://ip-api.com/json/12345''
      then Inr (Json (JsonFields
             \<lparr>status = Some ''success'', country = Some ''US'', city = Some ''Ashburn''\<rparr>))
      else if url = ''http://ip-api.com/json/198.51.100.4'' then
        Inr (Json (JsonFields \<lparr>status = Some ''fail'', country = None, city = None\<rparr>))
      else if url = ''http://ip-api.com/json/192.0.2.1'' then Inr (InvalidJson (Error ''Unexpected token''))
      else Inl (TypeError ''fetch failed''))"

definition demo :: world where
  "demo =
     \<lparr>on_listContainers = Inr
        [\<lparr>Names = Some [''/web''], Id' = ''a1''\<rparr>,
         \<lparr>Names = Some [''/db''], Id' = ''b2''\<rparr>,
         \<lparr>Names = Some [''/api''], Id' = ''c3''\<rparr>],
      on_inspect = demo_inspect, on_exec = demo_exec, on_fetch = demo_fetch,
      env_DEBUG = False\<rparr>"

text \<open>
  The same engine with another listing: the first and the third container come without
  a name, so both are listed under the key \<^verbatim>\<open>Unknown\<close>.
\<close>

definition demo_twins :: world where
  "demo_twins =
     demo\<lparr>on_listContainers := Inr
        [\<lparr>Names = None, Id' = ''a1''\<rparr>,
         \<lparr>Names = Some [''/db''], Id' = ''b2''\<rparr>,
         \<lparr>Names = Some [], Id' = ''c3''\<rparr>]\<rparr>"

text \<open>
  The same engine with a paused container \<open>p9\<close> (cache): the engine reports its status
  as \<^verbatim>\<open>paused\<close> and its \<^verbatim>\<open>Running\<close> flag as true, and refuses to run a command in it.
\<close>

definition demo_paused :: world where
  "demo_paused =
     demo\<lparr>on_inspect := demo_inspect
             (''p9'' := Inr \<lparr>Name = Some ''/cache'',
                               State = \<lparr>Running = True, Status = ''paused''\<rparr>,
                               Os = Some ''linux'', NetworkSettings = None\<rparr>),
          on_exec := (\<lambda>containerId command.
             if containerId = ''p9''
             then Inl (Error ''Container p9 is paused, unpause the container before exec'')
             else demo_exec containerId command)\<rparr>"

text \<open>
  The same engine with two more containers: \<open>m3\<close> (proxy) publishes one port on two
  host addresses and a second port on one, and exposes two ports without publishing
  them; \<open>n4\<close> (idle) exposes two ports and publishes none.
\<close>

definition demo_ports :: world where
  "demo_ports =
     demo\<lparr>on_inspect := demo_inspect
             (''m3'' := Inr \<lparr>Name = Some ''/proxy'',
                               State = \<lparr>Running = True, Status = ''running''\<rparr>,
                               Os = Some ''linux'',
                               NetworkSettings = Some \<lparr>Ports = Some
                                 [(''80/tcp'', Some [\<lparr>HostIp = ''0.0.0.0'', HostPort = ''8080''\<rparr>,
                                                     \<lparr>HostIp = ''::'', HostPort = ''8080''\<rparr>]),
                                  (''53/udp'', None),
                                  (''443/tcp'', Some [\<lparr>HostIp = ''0.0.0.0'', HostPort = ''8443''\<rparr>]),
                                  (''9000/tcp'', Some [])]\<rparr>\<rparr>,
              ''n4'' := Inr \<lparr>Name = Some ''/idle'',
                               State = \<lparr>Running = True, Status = ''running''\<rparr>,
                               Os = Some ''linux'',
                               NetworkSettings = Some \<lparr>Ports = Some
                                 [(''53/udp'', None), (''9000/tcp'', Some [])]\<rparr>\<rparr>)\<rparr>"

section \<open>Facts about the helpers\<close>

lemma return_bind [simp]: "bind_eff (return_eff x) f = f x"
  by (simp add: bind_eff_def return_eff_def split: prod.splits)

lemma throw_bind [simp]: "bind_eff (throw_eff e) f = throw_eff e"
  by (simp add: bind_eff_def throw_eff_def)

lemma map_of_set_property: "map_of (set_property k v obj) = (map_of obj)(k \<mapsto> v)"
  by (induction obj) auto

lemma keys_set_property:
  "map fst (set_property k v obj) = (if k \<in> fst ` set obj then map fst obj else map fst obj @ [k])"
  by (induction obj) force+

lemma distinct_set_property:
  "distinct (map fst obj) \<Longrightarrow> distinct (map fst (set_property k v obj))"
  by (simp add: keys_set_property)

lemma foldl_set_property:
  "map_of (foldl (\<lambda>obj (k, v). set_property k v obj) obj es) = map_of obj ++ map_of (rev es)"
  by (induction es arbitrary: obj) (auto simp: map_of_set_property)

lemma foldl_set_property_keys:
  "fst ` set (foldl (\<lambda>obj (k, v). set_property k v obj) obj es) = fst ` set obj \<union> fst ` set es"
proof (induction es arbitrary: obj)
  case Nil
  then show ?case by simp
next
  case (Cons e es)
  have "fst ` set (set_property (fst e) (snd e) obj) = insert (fst e) (fst ` set obj)"
    using arg_cong [OF keys_set_property [of "fst e" "snd e" obj], of set]
    by (auto simp only: set_map [symmetric] set_append list.set split: if_splits)
  then show ?case using Cons.IH [of "set_property (fst e) (snd e) obj"]
    by (simp add: split_beta)
qed

lemma foldl_set_property_distinct:
  "distinct (map fst obj) \<Longrightarrow> distinct (map fst (foldl (\<lambda>obj (k, v). set_property k v obj) obj es))"
  by (induction es arbitrary: obj) (auto simp: distinct_set_property)

lemma get_property_fromEntries:
  "get_property (Object_fromEntries es) k = map_of (rev es) k"
  by (simp add: get_property_def Object_fromEntries_def foldl_set_property)

lemma distinct_fromEntries: "distinct (map fst (Object_fromEntries es))"
  by (simp add: Object_fromEntries_def foldl_set_property_distinct)

lemma keys_fromEntries: "fst ` set (Object_fromEntries es) = fst ` set es"
  by (simp add: Object_fromEntries_def foldl_set_property_keys)

lemma length_fromEntries: "length (Object_fromEntries es) = card (fst ` set es)"
proof -
  have "length (Object_fromEntries es) = length (map fst (Object_fromEntries es))" by simp
  also have "\<dots> = card (set (map fst (Object_fromEntries es)))"
    using distinct_fromEntries [of es] by (simp only: distinct_card)
  also have "\<dots> = card (fst ` set es)" by (simp add: keys_fromEntries)
  finally show ?thesis .
qed

lemma length_Object_entries: "length (Object_entries obj) = length obj"
proof -
  have "length (filter (\<lambda>(k, v). is_array_index k) obj)
        + length (filter (\<lambda>(k, v). \<not> is_array_index k) obj) = length obj"
    by (induction obj) auto
  then show ?thesis by (simp add: Object_entries_def)
qed

lemma Promise_all_FulfilledD: "Promise_all ps = Fulfilled xs \<Longrightarrow> ps = map Inr xs"
proof (induction ps arbitrary: xs rule: Promise_all.induct)
  case 1
  then show ?case by auto
next
  case (2 e ps)
  then show ?case by (auto split: outcome.splits)
next
  case (3 x ps)
  then show ?case by (auto split: outcome.splits)
qed

lemma Promise_all_Inl:
  "Inl e \<in> set ps \<Longrightarrow> \<exists>es. Promise_all ps = Rejected es \<and> e \<in> set es"
proof (induction ps rule: Promise_all.induct)
  case 1
  then show ?case by simp
next
  case (2 e' ps)
  then show ?case by (cases "Promise_all ps") auto
next
  case (3 x ps)
  then show ?case by (cases "Promise_all ps") auto
qed

section \<open>Facts about the functions of \<^verbatim>\<open>src/utils.js\<close>\<close>

lemma getContainerOsType_ok:
  assumes "containerId \<noteq> []" and "on_inspect w containerId = Inr d"
  shows "getContainerOsType w containerId
           = ([Inspect containerId],
              Inr (case Os d of None \<Rightarrow> ''linux''
                   | Some os \<Rightarrow> if os = [] then ''linux'' else toLowerCase os))"
  using assms
  by (simp add: getContainerOsType_def inspect_def bind_eff_def catch_eff_def return_eff_def
        toLowerCase_def split: option.splits)

lemma getContainerOsType_fails:
  assumes "containerId \<noteq> []" and "on_inspect w containerId = Inl err"
  shows "getContainerOsType w containerId
           = ([Inspect containerId],
              Inl (Error (''Failed to get OS type for container '' @ containerId @ '': ''
                          @ err_text err)))"
  using assms
  by (simp add: getContainerOsType_def inspect_def bind_eff_def catch_eff_def throw_eff_def)

lemma runCommand_ok:
  assumes "containerId \<noteq> []" and "on_exec w containerId command = Inr (stream, code)"
  shows "runCommand w containerId command
           = ([Exec containerId command],
              Inr \<lparr>output = trim (strip_unprintable stream), exitCode = code\<rparr>)"
  using assms
  by (simp add: runCommand_def exec_def bind_eff_def catch_eff_def return_eff_def)

lemma runCommand_fails:
  assumes "containerId \<noteq> []" and "on_exec w containerId command = Inl err"
  shows "runCommand w containerId command
           = ([Exec containerId command],
              Inl (Error (''Failed to run command in container '' @ containerId @ '': ''
                          @ err_text err)))"
  using assms
  by (simp add: runCommand_def exec_def bind_eff_def catch_eff_def throw_eff_def)

lemma getPublicIP_steps:
  assumes "containerId \<noteq> []" and "getOs containerId = (cs, Inr osType)"
    and "run containerId (cmd osType) = (cs', Inr r)"
  shows "getPublicIP run (Some getOs) containerId
           = (cs @ cs',
              Inr (if exitCode r = 0 \<and> test_digits_dots (trim (output r))
                   then Some (trim (output r)) else None))"
  using assms
  by (simp add: getPublicIP_def bind_eff_def return_eff_def)

lemma getPublicIP_os_fails:
  assumes "containerId \<noteq> []" and "getOs containerId = (cs, Inl err)"
  shows "getPublicIP run (Some getOs) containerId = (cs, Inl err)"
  using assms
  by (simp add: getPublicIP_def bind_eff_def return_eff_def)

lemma getPublicIP_run_fails:
  assumes "containerId \<noteq> []" and "getOs containerId = (cs, Inr osType)"
    and "run containerId (cmd osType) = (cs', Inl err)"
  shows "getPublicIP run (Some getOs) containerId = (cs @ cs', Inl err)"
  using assms
  by (simp add: getPublicIP_def bind_eff_def return_eff_def)

lemma getLocation_total:
  assumes "ip \<noteq> []"
  shows "\<exists>cs location. getLocation w ip = (cs, Inr location)"
  using assms
  by (simp add: getLocation_def fetch_def response_json_def bind_eff_def catch_eff_def
        return_eff_def throw_eff_def console_error_def
        split: sum.splits response.splits json_body.splits prod.splits)

lemma test_digits_dots_iff:
  "test_digits_dots s \<longleftrightarrow> s \<noteq> [] \<and> set s \<subseteq> set ''0123456789.''"
proof -
  have "is_digit c \<or> c = CHR ''.'' \<longleftrightarrow> c \<in> set ''0123456789.''" for c
    by (simp add: is_digit_def)
  then have "list_all (\<lambda>c. is_digit c \<or> c = CHR ''.'') s \<longleftrightarrow> set s \<subseteq> set ''0123456789.''"
    by (simp only: list_all_iff subset_iff Ball_def)
  then show ?thesis by (simp only: test_digits_dots_def)
qed

lemma getPublicIP_Some:
  "getPublicIP run getOs containerId = (cs, Inr (Some a)) \<Longrightarrow> test_digits_dots a"
  by (auto simp: getPublicIP_def bind_eff_def return_eff_def throw_eff_def
      split: if_splits option.splits sum.splits prod.splits)

lemma getContainerStatus_not_running:
  assumes "containerId \<noteq> []" and "on_inspect w containerId = Inr d"
    and "\<not> Running (State d)"
  shows "snd (getContainerStatus w containerId)
           = Inr (name d, ''Container '' @ Status (State d), ''Unknown'')"
  using assms
  by (simp add: getContainerStatus_def inspect_def bind_eff_def catch_eff_def return_eff_def)

lemma getContainerStatus_running:
  assumes "containerId \<noteq> []" and "on_inspect w containerId = Inr d" and "Running (State d)"
    and "getPublicIP (runCommand w) (Some (getContainerOsType w)) containerId = (cs, res)"
  shows "snd (getContainerStatus w containerId)
           = (case res of
                Inl err \<Rightarrow>
                  Inl (Error (''Failed to get status for container '' @ containerId @ '': ''
                              @ err_text err))
              | Inr None \<Rightarrow> Inr (name d, ''Retrieval failed'', ''Unknown'')
              | Inr (Some a) \<Rightarrow>
                  if a = [] then Inr (name d, a, ''Unknown'')
                  else (case snd (getLocation w a) of
                          Inl err \<Rightarrow>
                            Inl (Error (''Failed to get status for container '' @ containerId
                                        @ '': '' @ err_text err))
                        | Inr location \<Rightarrow> Inr (name d, a, location)))"
  using assms
  by (simp add: getContainerStatus_def inspect_def bind_eff_def catch_eff_def return_eff_def
      throw_eff_def split: sum.splits option.splits prod.splits)

lemma cmd_cases:
  "cmd osType = (if includes_str osType ''win'' then [''curl'', ''-s'', ''https://api.ipify.org'']
                 else [''sh'', ''-c'', ''curl -s https://api.ipify.org''])"
  by (simp add: cmd_def curlCmd_def)

lemma getPublicIP_calls:
  assumes "containerId \<noteq> []" and "on_inspect w containerId = Inr d"
  shows "fst (getPublicIP (runCommand w) (Some (getContainerOsType w)) containerId)
           = [Inspect containerId,
              Exec containerId
                (cmd (case Os d of None \<Rightarrow> ''linux''
                      | Some os \<Rightarrow> if os = [] then ''linux'' else toLowerCase os))]"
proof -
  let ?os = "case Os d of None \<Rightarrow> ''linux'' | Some os \<Rightarrow> if os = [] then ''linux'' else toLowerCase os"
  have os: "getContainerOsType w containerId = ([Inspect containerId], Inr ?os)"
    using getContainerOsType_ok [OF assms] .
  show ?thesis
  proof (cases "on_exec w containerId (cmd ?os)")
    case (Inl err)
    show ?thesis
      using getPublicIP_run_fails [where run = "runCommand w" and getOs = "getContainerOsType w",
          OF assms(1) os runCommand_fails [OF assms(1) Inl]]
      by simp
  next
    case (Inr p)
    then obtain stream code where "on_exec w containerId (cmd ?os) = Inr (stream, code)"
      by (cases p) auto
    then show ?thesis
      using getPublicIP_steps [where run = "runCommand w" and getOs = "getContainerOsType w",
          OF assms(1) os runCommand_ok [OF assms(1)]]
      by simp
  qed
qed

lemma getContainerStatus_inspect_fails:
  assumes "containerId \<noteq> []" and "on_inspect w containerId = Inl err"
  shows "getContainerStatus w containerId
           = ([Inspect containerId],
              Inl (Error (''Failed to get status for container '' @ containerId @ '': ''
                          @ err_text err)))"
  using assms
  by (simp add: getContainerStatus_def inspect_def bind_eff_def catch_eff_def throw_eff_def)

lemma batch_all:
  "getSelectedContainerResults w (Inr ''All'') containerMap
     = Promise_all (map (\<lambda>containerId. snd (getContainerStatus w containerId))
                        (Object_values containerMap))"
  by (simp add: getSelectedContainerResults_def)

lemma batch_rejected:
  assumes "containerId \<in> set (Object_values containerMap)"
    and "snd (getContainerStatus w containerId) = Inl e"
  shows "\<exists>es. getSelectedContainerResults w (Inr ''All'') containerMap = Rejected es
              \<and> e \<in> set es"
proof -
  have "Inl e \<in> set (map (\<lambda>containerId. snd (getContainerStatus w containerId))
                        (Object_values containerMap))"
    using assms by force
  then show ?thesis
    unfolding batch_all by (rule Promise_all_Inl)
qed

lemma batch_fulfilled:
  assumes "getSelectedContainerResults w (Inr ''All'') containerMap = Fulfilled rows"
  shows "map Inr rows = map (\<lambda>containerId. snd (getContainerStatus w containerId))
                            (Object_values containerMap)"
  using assms Promise_all_FulfilledD unfolding batch_all by metis

lemma Promise_all_all_Inr:
  "list_all (\<lambda>p. \<not> isl p) ps \<Longrightarrow> \<exists>xs. Promise_all ps = Fulfilled xs"
proof (induction ps rule: Promise_all.induct)
  case 1
  then show ?case by simp
next
  case (2 e ps)
  then show ?case by simp
next
  case (3 x ps)
  then show ?case by auto
qed

lemma length_Object_values: "length (Object_values obj) = length obj"
  by (simp add: Object_values_def length_Object_entries)

lemma getContainerStatus_local:
  assumes "on_inspect w containerId = on_inspect w' containerId"
    and "on_exec w containerId = on_exec w' containerId"
    and "on_fetch w = on_fetch w'" and "env_DEBUG w = env_DEBUG w'"
  shows "getContainerStatus w containerId = getContainerStatus w' containerId"
proof -
  have run: "runCommand w containerId c = runCommand w' containerId c" for c
    by (simp only: runCommand_def exec_def assms(2))
  have os: "getContainerOsType w containerId = getContainerOsType w' containerId"
    by (simp only: getContainerOsType_def inspect_def assms(1))
  have ip: "getPublicIP (runCommand w) (Some (getContainerOsType w)) containerId
              = getPublicIP (runCommand w') (Some (getContainerOsType w')) containerId"
    by (simp only: getPublicIP_def run os option.case)
  have loc: "getLocation w a = getLocation w' a" for a
    by (simp only: getLocation_def fetch_def assms(3,4))
  show ?thesis
    by (simp only: getContainerStatus_def inspect_def assms(1) ip loc)
qed

lemma getContainerStatus_exec_fails:
  assumes "containerId \<noteq> []" and "on_inspect w containerId = Inr d" and "Running (State d)"
    and "snd (getContainerOsType w containerId) = Inr osType"
    and "on_exec w containerId (cmd osType) = Inl err"
  shows "snd (getContainerStatus w containerId)
           = Inl (Error (''Failed to get status for container '' @ containerId
                         @ '': Failed to run command in container '' @ containerId @ '': ''
                         @ err_text err))"
proof -
  have os: "getContainerOsType w containerId = ([Inspect containerId], Inr osType)"
    using assms(1,2,4) getContainerOsType_ok [of containerId w d] by simp
  have "getPublicIP (runCommand w) (Some (getContainerOsType w)) containerId
          = ([Inspect containerId] @ [Exec containerId (cmd osType)],
             Inl (Error (''Failed to run command in container '' @ containerId @ '': ''
                         @ err_text err)))"
    using getPublicIP_run_fails [where run = "runCommand w" and getOs = "getContainerOsType w",
        OF assms(1) os runCommand_fails [OF assms(1,5)]] .
  then show ?thesis
    using getContainerStatus_running [OF assms(1,2,3)] by (simp add: err_text_def)
qed

lemma demo_inspect_a1:
  "on_inspect demo ''a1''
     = Inr \<lparr>Name = Some ''/web'', State = \<lparr>Running = True, Status = ''running''\<rparr>,
            Os = None,
            NetworkSettings = Some \<lparr>Ports = Some
              [(''80/tcp'', Some [\<lparr>HostIp = ''0.0.0.0'', HostPort = ''8080''\<rparr>]),
               (''443/tcp'', None)]\<rparr>\<rparr>"
  by (simp add: demo_def demo_inspect_def)

lemma demo_inspect_b2:
  "on_inspect demo ''b2''
     = Inr \<lparr>Name = Some ''/db'', State = \<lparr>Running = False, Status = ''exited''\<rparr>,
            Os = Some ''linux'', NetworkSettings = Some \<lparr>Ports = Some []\<rparr>\<rparr>"
  by (simp add: demo_def demo_inspect_def)

lemma demo_inspect_d4:
  "on_inspect demo ''d4''
     = Inr \<lparr>Name = Some ''/job'', State = \<lparr>Running = True, Status = ''running''\<rparr>,
            Os = Some ''linux'', NetworkSettings = None\<rparr>"
  by (simp add: demo_def demo_inspect_def)

lemma toLowerCase_linux: "toLowerCase ''linux'' = ''linux''"
  by (simp add: toLowerCase_def toLowerCase_char_def)

lemma cmd_linux: "cmd ''linux'' = [''sh'', ''-c'', ''curl -s https://api.ipify.org'']"
  by (simp add: cmd_cases)

lemma demo_status_a1:
  "snd (getContainerStatus demo ''a1'') = Inr (''web'', ''203.0.113.7'', ''US, Ashburn'')"
proof -
  have os: "getContainerOsType demo ''a1'' = ([Inspect ''a1''], Inr ''linux'')"
    using getContainerOsType_ok [OF _ demo_inspect_a1] by simp
  have e: "on_exec demo ''a1'' (cmd ''linux'')
             = Inr ([CHR 0x01, CHR 0x00, CHR 0x00, CHR 0x00, CHR 0x00, CHR 0x00, CHR 0x00,
                     CHR 0x0C] @ ''203.0.113.7'' @ [CHR 0x0A], 0)"
    by (simp add: demo_def demo_exec_def)
  have run: "runCommand demo ''a1'' (cmd ''linux'')
               = ([Exec ''a1'' (cmd ''linux'')], Inr \<lparr>output = ''203.0.113.7'', exitCode = 0\<rparr>)"
    using runCommand_ok [OF _ e]
    by (simp add: trim_def strip_unprintable_def printable_def is_whitespace_def)
  have t: "trim ''203.0.113.7'' = ''203.0.113.7''"
    by (simp add: trim_def is_whitespace_def)
  have ip: "getPublicIP (runCommand demo) (Some (getContainerOsType demo)) ''a1''
              = ([Inspect ''a1'', Exec ''a1'' (cmd ''linux'')], Inr (Some ''203.0.113.7''))"
    using getPublicIP_steps [where run = "runCommand demo"
        and getOs = "getContainerOsType demo", OF _ os run]
    by (simp add: t test_digits_dots_def is_digit_def)
  have loc: "snd (getLocation demo ''203.0.113.7'') = Inr ''US, Ashburn''"
    by (simp add: getLocation_def fetch_def response_json_def bind_eff_def catch_eff_def
        return_eff_def demo_def demo_fetch_def template_def)
  show ?thesis
    using getContainerStatus_running [OF _ demo_inspect_a1 _ ip] loc
    by (simp add: name_def replace_slash_def)
qed

lemma demo_status_b2:
  "snd (getContainerStatus demo ''b2'') = Inr (''db'', ''Container exited'', ''Unknown'')"
  using getContainerStatus_not_running [OF _ demo_inspect_b2]
  by (simp add: name_def replace_slash_def)

lemma demo_os_d4: "snd (getContainerOsType demo ''d4'') = Inr ''linux''"
  using getContainerOsType_ok [OF _ demo_inspect_d4] by (simp add: toLowerCase_linux)

lemma demo_exec_d4: "on_exec demo ''d4'' (cmd ''linux'') = Inl (Error ''exec failed'')"
  by (simp add: demo_def demo_exec_def cmd_linux)

lemma demo_status_d4:
  "snd (getContainerStatus demo ''d4'')
     = Inl (Error ''Failed to get status for container d4: Failed to run command in container d4: exec failed'')"
  using getContainerStatus_exec_fails [OF _ demo_inspect_d4 _ demo_os_d4 demo_exec_d4]
  by (simp add: err_text_def)

lemma Object_entries_plain:
  assumes "list_all (\<lambda>(k, v). \<not> is_array_index k) obj"
  shows "Object_entries obj = obj"
proof -
  have "filter (\<lambda>(k, v). is_array_index k) obj = []"
    using assms by (induction obj) auto
  moreover have "filter (\<lambda>(k, v). \<not> is_array_index k) obj = obj"
    using assms by (induction obj) auto
  ultimately show ?thesis by (simp add: Object_entries_def)
qed

lemma Object_values_plain:
  "list_all (\<lambda>(k, v). \<not> is_array_index k) obj \<Longrightarrow> Object_values obj = map snd obj"
  by (simp add: Object_values_def Object_entries_plain)

lemma getContainerMap_ok:
  assumes "on_listContainers w = Inr containers"
  shows "getContainerMap w
           = ([ListContainers],
              Inr (Object_fromEntries (map (\<lambda>c. (container_key c, Id' c)) containers)))"
  using assms
  by (simp add: getContainerMap_def listContainers_def bind_eff_def catch_eff_def return_eff_def)

lemma get_property_last:
  assumes "k \<notin> fst ` set ys"
  shows "get_property (Object_fromEntries (xs @ (k, v) # ys)) k = Some v"
proof -
  have "map_of (rev ys) k = None"
    using assms by (simp add: map_of_eq_None_iff)
  then show ?thesis
    by (simp add: get_property_fromEntries map_add_def)
qed

lemma demo_inspect_c3:
  "on_inspect demo ''c3''
     = Inr \<lparr>Name = Some ''/api'', State = \<lparr>Running = True, Status = ''running''\<rparr>,
            Os = Some ''linux'', NetworkSettings = None\<rparr>"
  by (simp add: demo_def demo_inspect_def)

lemma demo_status_c3:
  "snd (getContainerStatus demo ''c3'') = Inr (''api'', ''Retrieval failed'', ''Unknown'')"
proof -
  have os: "getContainerOsType demo ''c3'' = ([Inspect ''c3''], Inr ''linux'')"
    using getContainerOsType_ok [OF _ demo_inspect_c3] by (simp add: toLowerCase_linux)
  have e: "on_exec demo ''c3'' (cmd ''linux'') = Inr (''connection refused'', 0)"
    by (simp add: demo_def demo_exec_def)
  have run: "runCommand demo ''c3'' (cmd ''linux'')
               = ([Exec ''c3'' (cmd ''linux'')],
                  Inr \<lparr>output = ''connection refused'', exitCode = 0\<rparr>)"
    using runCommand_ok [OF _ e]
    by (simp add: trim_def strip_unprintable_def printable_def is_whitespace_def)
  have ip: "getPublicIP (runCommand demo) (Some (getContainerOsType demo)) ''c3''
              = ([Inspect ''c3'', Exec ''c3'' (cmd ''linux'')], Inr None)"
    using getPublicIP_steps [where run = "runCommand demo"
        and getOs = "getContainerOsType demo", OF _ os run]
    by (simp add: test_digits_dots_def trim_def is_whitespace_def is_digit_def)
  show ?thesis
    using getContainerStatus_running [OF _ demo_inspect_c3 _ ip]
    by (simp add: name_def replace_slash_def)
qed

lemma demo_twins_status: "getContainerStatus demo_twins containerId = getContainerStatus demo containerId"
  by (rule getContainerStatus_local) (simp_all add: demo_twins_def)

lemma portRows_loop_rows:
  "snd (portRows_loop w entries (calls, portRows))
     = portRows
       @ map (\<lambda>(key, containerId).
                (key,
                 case snd (getContainerPorts w containerId) of
                   Inr ports \<Rightarrow> if ports = [] then ''No ports exposed''
                                 else join_str [CHR 0x0A] ports
                 | Inl err \<Rightarrow> ''Error retrieving ports ('' @ err_text err @ '')''))
             entries"
proof (induction entries arbitrary: calls portRows)
  case Nil
  then show ?case by simp
next
  case (Cons e entries)
  obtain key containerId where e: "e = (key, containerId)" by (cases e)
  obtain cs r where g: "getContainerPorts w containerId = (cs, r)"
    by (cases "getContainerPorts w containerId")
  show ?case
  proof (cases r)
    case (Inl err)
    then show ?thesis using e g Cons.IH by simp
  next
    case (Inr ports)
    then show ?thesis using e g Cons.IH by simp
  qed
qed

lemma join_rendered_not_empty:
  "bs \<noteq> [] \<Longrightarrow> join_str sep (map (\<lambda>b. HostIp b @ '':'' @ HostPort b @ ''->'' @ p) bs) \<noteq> []"
proof (cases bs)
  case Nil
  assume "bs \<noteq> []"
  then show ?thesis using Nil by simp
next
  case (Cons b rest)
  then show ?thesis by (cases rest) auto
qed

lemma getContainerPorts_ok:
  assumes "containerId \<noteq> []" and "on_inspect w containerId = Inr d"
  shows "getContainerPorts w containerId
           = ([Inspect containerId],
              Inr (filter_Boolean
                     (map (\<lambda>(containerPort, bindings).
                             case bindings of
                               None \<Rightarrow> None
                             | Some bs \<Rightarrow>
                                 if bs = [] then None
                                 else Some (join_str '', ''
                                        (map (\<lambda>b. HostIp b @ '':'' @ HostPort b @ ''->''
                                                    @ containerPort) bs)))
                          (case NetworkSettings d of
                             None \<Rightarrow> []
                           | Some ns \<Rightarrow> (case Ports ns of None \<Rightarrow> [] | Some ps \<Rightarrow> ps)))))"
  using assms
  by (simp add: getContainerPorts_def inspect_def bind_eff_def catch_eff_def return_eff_def)

lemma getContainerPorts_fails:
  assumes "containerId \<noteq> []" and "on_inspect w containerId = Inl err"
  shows "getContainerPorts w containerId
           = ([Inspect containerId],
              Inl (Error (''Failed to get ports for container '' @ containerId @ '': ''
                          @ err_text err)))"
  using assms
  by (simp add: getContainerPorts_def inspect_def bind_eff_def catch_eff_def throw_eff_def)

lemma filter_Boolean_none:
  "list_all (\<lambda>(containerPort, bindings). bindings = None \<or> bindings = Some []) ps
   \<Longrightarrow> filter_Boolean
         (map (\<lambda>(containerPort, bindings).
                 case bindings of
                   None \<Rightarrow> None
                 | Some bs \<Rightarrow>
                     if bs = [] then None
                     else Some (join_str '', ''
                            (map (\<lambda>b. HostIp b @ '':'' @ HostPort b @ ''->'' @ containerPort) bs)))
              ps) = []"
  by (induction ps) auto

lemma demo_inspect_zz: "on_inspect demo ''zz'' = Inl (Error ''no such container'')"
  by (simp add: demo_def demo_inspect_def)

lemma getContainerMap_distinct:
  assumes "on_listContainers w = Inr containers" and "distinct (map container_key containers)"
    and "snd (getContainerMap w) = Inr containerMap"
  shows "length containerMap = length containers"
proof -
  let ?es = "map (\<lambda>c. (container_key c, Id' c)) containers"
  have m: "map fst ?es = map container_key containers"
    by simp
  have "containerMap = Object_fromEntries ?es"
    using assms(3) getContainerMap_ok [OF assms(1)] by simp
  then have "length containerMap = card (set (map fst ?es))"
    by (simp only: length_fromEntries set_map)
  also have "\<dots> = length (map fst ?es)"
    unfolding m using assms(2) by (rule distinct_card)
  finally show ?thesis by simp
qed

lemma getContainerStatus_running_calls:
  assumes "containerId \<noteq> []" and "on_inspect w containerId = Inr d" and "Running (State d)"
  shows "\<exists>cs. fst (getContainerStatus w containerId)
               = [Inspect containerId, Inspect containerId,
                  Exec containerId
                    (cmd (case Os d of None \<Rightarrow> ''linux''
                          | Some os \<Rightarrow> if os = [] then ''linux'' else toLowerCase os))] @ cs"
proof -
  obtain cs res where ip: "getPublicIP (runCommand w) (Some (getContainerOsType w)) containerId
                             = (cs, res)"
    by (cases "getPublicIP (runCommand w) (Some (getContainerOsType w)) containerId")
  have cs: "cs = [Inspect containerId,
                  Exec containerId
                    (cmd (case Os d of None \<Rightarrow> ''linux''
                          | Some os \<Rightarrow> if os = [] then ''linux'' else toLowerCase os))]"
    using getPublicIP_calls [OF assms(1,2)] ip by simp
  show ?thesis
    using assms ip
    by (simp add: getContainerStatus_def inspect_def bind_eff_def catch_eff_def return_eff_def
        throw_eff_def cs split: sum.splits option.splits prod.splits)
qed

lemma join_str_concat: "join_str sep (x # xs) = x @ concat (map (\<lambda>y. sep @ y) xs)"
  by (induction xs arbitrary: x) auto

lemma filter_Boolean_concat:
  "filter_Boolean
     (map (\<lambda>(containerPort, bindings).
             case bindings of
               None \<Rightarrow> None
             | Some bs \<Rightarrow>
                 if bs = [] then None
                 else Some (join_str '', ''
                        (map (\<lambda>b. HostIp b @ '':'' @ HostPort b @ ''->'' @ containerPort) bs)))
          ps)
   = concat
       (map (\<lambda>(containerPort, bindings).
               case bindings of
                 None \<Rightarrow> []
               | Some [] \<Rightarrow> []
               | Some (b # bs) \<Rightarrow>
                   [HostIp b @ '':'' @ HostPort b @ ''->'' @ containerPort
                    @ concat (map (\<lambda>b'. '', '' @ HostIp b' @ '':'' @ HostPort b' @ ''->''
                                         @ containerPort) bs)])
            ps)"
proof (induction ps)
  case Nil
  then show ?case by simp
next
  case (Cons e ps)
  obtain p bo where e: "e = (p, bo)" by (cases e)
  show ?case
  proof (cases bo)
    case None
    then show ?thesis using e Cons.IH by simp
  next
    case (Some bs)
    show ?thesis
    proof (cases bs)
      case Nil
      then show ?thesis using e Some Cons.IH by simp
    next
      case (Cons b rest)
      have "join_str '', '' (map (\<lambda>b. HostIp b @ '':'' @ HostPort b @ ''->'' @ p) (b # rest))
              = HostIp b @ '':'' @ HostPort b @ ''->'' @ p
                @ concat (map (\<lambda>b'. '', '' @ HostIp b' @ '':'' @ HostPort b' @ ''->'' @ p) rest)"
        by (simp add: join_str_concat comp_def)
      moreover have "join_str '', '' (map (\<lambda>b. HostIp b @ '':'' @ HostPort b @ ''->'' @ p) (b # rest))
                       \<noteq> []"
        by (rule join_rendered_not_empty) simp
      ultimately show ?thesis using e Some Cons Cons.IH by simp
    qed
  qed
qed

lemma portRows_loop_cells:
  "snd (portRows_loop w entries (calls, portRows))
     = portRows
       @ map (\<lambda>(key, containerId).
                (key,
                 case snd (getContainerPorts w containerId) of
                   Inl err \<Rightarrow> ''Error retrieving ports ('' @ err_text err @ '')''
                 | Inr [] \<Rightarrow> ''No ports exposed''
                 | Inr (p # rest) \<Rightarrow> p @ concat (map (\<lambda>q. CHR 0x0A # q) rest)))
             entries"
proof -
  have cell:
    "(case r of
        Inr ports \<Rightarrow> if ports = [] then ''No ports exposed'' else join_str [CHR 0x0A] ports
      | Inl err \<Rightarrow> ''Error retrieving ports ('' @ err_text err @ '')'')
     = (case r of
          Inl err \<Rightarrow> ''Error retrieving ports ('' @ err_text err @ '')''
        | Inr [] \<Rightarrow> ''No ports exposed''
        | Inr (p # rest) \<Rightarrow> p @ concat (map (\<lambda>q. CHR 0x0A # q) rest))"
    for r :: "js_error + string list"
    by (auto simp: join_str_concat split: sum.splits list.splits)
  show ?thesis
    by (simp only: portRows_loop_rows cell)
qed

lemma listContainerPorts_table:
  assumes "containerMap \<noteq> []"
  shows "snd (listContainerPorts w containerMap)
           = PortsTable
               (map (\<lambda>(key, containerId).
                       (key,
                        case snd (getContainerPorts w containerId) of
                          Inl err \<Rightarrow> ''Error retrieving ports ('' @ err_text err @ '')''
                        | Inr [] \<Rightarrow> ''No ports exposed''
                        | Inr (p # rest) \<Rightarrow> p @ concat (map (\<lambda>q. CHR 0x0A # q) rest)))
                    (Object_entries containerMap))"
proof -
  have ne: "Object_entries containerMap \<noteq> []"
    using assms length_Object_entries [of containerMap] by auto
  show ?thesis
    using ne portRows_loop_cells [of w "Object_entries containerMap" "[]" "[]"]
    by (cases "portRows_loop w (Object_entries containerMap) ([], [])")
      (simp add: listContainerPorts_def)
qed

lemma demo_ports_inspect_m3:
  "on_inspect demo_ports ''m3''
     = Inr \<lparr>Name = Some ''/proxy'', State = \<lparr>Running = True, Status = ''running''\<rparr>,
            Os = Some ''linux'',
            NetworkSettings = Some \<lparr>Ports = Some
              [(''80/tcp'', Some [\<lparr>HostIp = ''0.0.0.0'', HostPort = ''8080''\<rparr>,
                                  \<lparr>HostIp = ''::'', HostPort = ''8080''\<rparr>]),
               (''53/udp'', None),
               (''443/tcp'', Some [\<lparr>HostIp = ''0.0.0.0'', HostPort = ''8443''\<rparr>]),
               (''9000/tcp'', Some [])]\<rparr>\<rparr>"
  by (simp add: demo_ports_def)

lemma demo_ports_inspect_n4:
  "on_inspect demo_ports ''n4''
     = Inr \<lparr>Name = Some ''/idle'', State = \<lparr>Running = True, Status = ''running''\<rparr>,
            Os = Some ''linux'',
            NetworkSettings = Some \<lparr>Ports = Some
              [(''53/udp'', None), (''9000/tcp'', Some [])]\<rparr>\<rparr>"
  by (simp add: demo_ports_def)

lemma demo_ports_inspect_other:
  "containerId \<noteq> ''m3'' \<Longrightarrow> containerId \<noteq> ''n4''
   \<Longrightarrow> on_inspect demo_ports containerId = on_inspect demo containerId"
  by (simp add: demo_ports_def demo_def)

lemma demo_twins_inspect: "on_inspect demo_twins containerId = on_inspect demo containerId"
  by (simp add: demo_twins_def)

section \<open>The claims\<close>

subsection \<open>Claim C1\<close>

text \<open>
  Claim C1, as amended. In batch mode the pipelines of the containers are computed
  independently: the outcome for one container depends only on the answers the engine
  and the network give for that container. When every pipeline produces a row, the
  batch result has exactly one row per entry of the container map, in the order in
  which the map lists its entries, each row being what that container's own pipeline
  produces. When the exec call of one container throws, that pipeline throws, and the
  batch is rejected as a whole: it has no rows.
\<close>

theorem C1_batch_all_or_nothing:
  "(getSelectedContainerResults w (Inr ''All'') containerMap = Fulfilled rows
      \<longrightarrow> length rows = length containerMap
          \<and> map Inr rows = map (\<lambda>containerId. snd (getContainerStatus w containerId))
                               (Object_values containerMap))
   \<and> (list_all (\<lambda>containerId. \<not> isl (snd (getContainerStatus w containerId)))
         (Object_values containerMap)
      \<longrightarrow> (\<exists>rows. getSelectedContainerResults w (Inr ''All'') containerMap = Fulfilled rows))
   \<and> (containerId \<in> set (Object_values containerMap) \<and> containerId \<noteq> []
        \<and> on_inspect w containerId = Inr d \<and> Running (State d)
        \<and> snd (getContainerOsType w containerId) = Inr osType
        \<and> on_exec w containerId (cmd osType) = Inl err
      \<longrightarrow> (\<exists>es. getSelectedContainerResults w (Inr ''All'') containerMap = Rejected es
                \<and> Error (''Failed to get status for container '' @ containerId
                          @ '': Failed to run command in container '' @ containerId @ '': ''
                          @ err_text err) \<in> set es))
   \<and> (on_inspect w containerId = on_inspect w' containerId
        \<and> on_exec w containerId = on_exec w' containerId
        \<and> on_fetch w = on_fetch w' \<and> env_DEBUG w = env_DEBUG w'
      \<longrightarrow> getContainerStatus w containerId = getContainerStatus w' containerId)"
proof (intro conjI impI)
  assume f: "getSelectedContainerResults w (Inr ''All'') containerMap = Fulfilled rows"
  show m: "map Inr rows = map (\<lambda>containerId. snd (getContainerStatus w containerId))
                            (Object_values containerMap)"
    using batch_fulfilled [OF f] .
  have "length (map Inr rows :: (js_error + status_row) list) = length (Object_values containerMap)"
    unfolding m by simp
  then show "length rows = length containerMap"
    by (simp add: length_Object_values)
next
  assume "list_all (\<lambda>containerId. \<not> isl (snd (getContainerStatus w containerId)))
            (Object_values containerMap)"
  then have "list_all (\<lambda>p. \<not> isl p)
               (map (\<lambda>containerId. snd (getContainerStatus w containerId))
                    (Object_values containerMap))"
    by (simp add: list_all_iff)
  then show "\<exists>rows. getSelectedContainerResults w (Inr ''All'') containerMap = Fulfilled rows"
    unfolding batch_all by (rule Promise_all_all_Inr)
next
  assume a: "containerId \<in> set (Object_values containerMap) \<and> containerId \<noteq> []
        \<and> on_inspect w containerId = Inr d \<and> Running (State d)
        \<and> snd (getContainerOsType w containerId) = Inr osType
        \<and> on_exec w containerId (cmd osType) = Inl err"
  then have "snd (getContainerStatus w containerId)
           = Inl (Error (''Failed to get status for container '' @ containerId
                         @ '': Failed to run command in container '' @ containerId @ '': ''
                         @ err_text err))"
    using getContainerStatus_exec_fails [of containerId w d osType err] by simp
  then show "\<exists>es. getSelectedContainerResults w (Inr ''All'') containerMap = Rejected es
                \<and> Error (''Failed to get status for container '' @ containerId
                          @ '': Failed to run command in container '' @ containerId @ '': ''
                          @ err_text err) \<in> set es"
    using a batch_rejected [of containerId containerMap w] by simp
next
  assume "on_inspect w containerId = on_inspect w' containerId
        \<and> on_exec w containerId = on_exec w' containerId
        \<and> on_fetch w = on_fetch w' \<and> env_DEBUG w = env_DEBUG w'"
  then show "getContainerStatus w containerId = getContainerStatus w' containerId"
    using getContainerStatus_local [of w containerId w'] by simp
qed

theorem C1_batch_all_or_nothing_witness:
  "getSelectedContainerResults demo (Inr ''All'') [(''web'', ''a1''), (''db'', ''b2'')]
     = Fulfilled [(''web'', ''203.0.113.7'', ''US, Ashburn''),
                  (''db'', ''Container exited'', ''Unknown'')]
   \<and> length [(''web'', ''203.0.113.7'', ''US, Ashburn''), (''db'', ''Container exited'', ''Unknown'')]
       = length [(''web'', ''a1''), (''db'', ''b2'')]
   \<and> (\<exists>es. getSelectedContainerResults demo (Inr ''All'')
               [(''web'', ''a1''), (''job'', ''d4''), (''db'', ''b2'')] = Rejected es
           \<and> Error ''Failed to get status for container d4: Failed to run command in container d4: exec failed''
               \<in> set es)
   \<and> getContainerStatus demo ''a1''
       = getContainerStatus (demo\<lparr>on_inspect := demo_inspect(''b2'' := Inl (Error ''gone''))\<rparr>) ''a1''"
proof -
  have v2: "Object_values [(''web'', ''a1''), (''db'', ''b2'')] = [''a1'', ''b2'']"
    by (simp add: Object_values_plain is_array_index_def is_digit_def)
  have v3: "Object_values [(''web'', ''a1''), (''job'', ''d4''), (''db'', ''b2'')]
              = [''a1'', ''d4'', ''b2'']"
    by (simp add: Object_values_plain is_array_index_def is_digit_def)
  have ok: "list_all (\<lambda>containerId. \<not> isl (snd (getContainerStatus demo containerId)))
              (Object_values [(''web'', ''a1''), (''db'', ''b2'')])"
    by (simp add: v2 demo_status_a1 demo_status_b2)
  obtain rows where
    f: "getSelectedContainerResults demo (Inr ''All'') [(''web'', ''a1''), (''db'', ''b2'')]
          = Fulfilled rows"
    using C1_batch_all_or_nothing [of demo "[(''web'', ''a1''), (''db'', ''b2'')]"] ok
    by blast
  have "length rows = length [(''web'', ''a1''), (''db'', ''b2'')]
        \<and> map Inr rows = map (\<lambda>containerId. snd (getContainerStatus demo containerId))
                             (Object_values [(''web'', ''a1''), (''db'', ''b2'')])"
    using C1_batch_all_or_nothing [of demo "[(''web'', ''a1''), (''db'', ''b2'')]" rows] f
    by blast
  then have rows: "rows = [(''web'', ''203.0.113.7'', ''US, Ashburn''),
                           (''db'', ''Container exited'', ''Unknown'')]"
    by (auto simp: v2 demo_status_a1 demo_status_b2)
  have rej: "\<exists>es. getSelectedContainerResults demo (Inr ''All'')
                    [(''web'', ''a1''), (''job'', ''d4''), (''db'', ''b2'')] = Rejected es
                \<and> Error ''Failed to get status for container d4: Failed to run command in container d4: exec failed''
                    \<in> set es"
    using C1_batch_all_or_nothing [of demo
        "[(''web'', ''a1''), (''job'', ''d4''), (''db'', ''b2'')]" _ "''d4''"
        "\<lparr>Name = Some ''/job'', State = \<lparr>Running = True, Status = ''running''\<rparr>,
          Os = Some ''linux'', NetworkSettings = None\<rparr>" "''linux''" "Error ''exec failed''"]
      demo_inspect_d4 demo_os_d4 demo_exec_d4
    by (simp add: v3 err_text_def)
  have loc: "getContainerStatus demo ''a1''
       = getContainerStatus (demo\<lparr>on_inspect := demo_inspect(''b2'' := Inl (Error ''gone''))\<rparr>) ''a1''"
    using C1_batch_all_or_nothing [of demo _ _ "''a1''" _ _ _
        "demo\<lparr>on_inspect := demo_inspect(''b2'' := Inl (Error ''gone''))\<rparr>"]
    by (simp add: demo_def)
  show ?thesis using f rows rej loc by simp
qed

theorem C1_counterexample:
  "snd (getContainerStatus demo ''a1'') = Inr (''web'', ''203.0.113.7'', ''US, Ashburn'')
   \<and> on_exec demo ''d4'' [''sh'', ''-c'', ''curl -s https://api.ipify.org'']
       = Inl (Error ''exec failed'')
   \<and> snd (getContainerStatus demo ''b2'') = Inr (''db'', ''Container exited'', ''Unknown'')
   \<and> getSelectedContainerResults demo (Inr ''All'')
        [(''web'', ''a1''), (''job'', ''d4''), (''db'', ''b2'')]
       = Rejected [Error ''Failed to get status for container d4: Failed to run command in container d4: exec failed'']"
proof -
  have v3: "Object_values [(''web'', ''a1''), (''job'', ''d4''), (''db'', ''b2'')]
              = [''a1'', ''d4'', ''b2'']"
    by (simp add: Object_values_plain is_array_index_def is_digit_def)
  have "getSelectedContainerResults demo (Inr ''All'')
          [(''web'', ''a1''), (''job'', ''d4''), (''db'', ''b2'')]
        = Rejected [Error ''Failed to get status for container d4: Failed to run command in container d4: exec failed'']"
    by (simp add: batch_all v3 demo_status_a1 demo_status_b2 demo_status_d4)
  then show ?thesis
    using demo_status_a1 demo_status_b2 demo_exec_d4 by (simp add: cmd_linux)
qed

subsection \<open>Claim C2\<close>

text \<open>
  Claim C2, as amended. For every container id whose inspection fails, among them an
  id the engine no longer knows, \<open>getContainerStatus\<close> produces no row: it throws
  \<^verbatim>\<open>Failed to get status for container\<close>, the id and the cause, after the one call of
  the inspection. The failure is propagated: a batch over a map that holds the id is
  rejected as a whole, with that error among the reasons, and has no rows.
\<close>

theorem C2_inspect_failure_propagates:
  assumes "containerId \<noteq> []" and "on_inspect w containerId = Inl err"
  shows "getContainerStatus w containerId
           = ([Inspect containerId],
              Inl (Error (''Failed to get status for container '' @ containerId @ '': ''
                          @ err_text err)))
       \<and> (containerId \<in> set (Object_values containerMap)
          \<longrightarrow> (\<exists>es. getSelectedContainerResults w (Inr ''All'') containerMap = Rejected es
                    \<and> Error (''Failed to get status for container '' @ containerId @ '': ''
                              @ err_text err) \<in> set es))"
  using getContainerStatus_inspect_fails [OF assms]
    batch_rejected [of containerId containerMap w]
  by simp

theorem C2_inspect_failure_propagates_witness:
  "getContainerStatus demo ''g7''
     = ([Inspect ''g7''],
        Inl (Error ''Failed to get status for container g7: socket hang up''))
   \<and> (\<exists>es. getSelectedContainerResults demo (Inr ''All'') [(''web'', ''a1''), (''tmp'', ''g7'')]
             = Rejected es
           \<and> Error ''Failed to get status for container g7: socket hang up'' \<in> set es)"
proof -
  have g: "on_inspect demo ''g7'' = Inl (Error ''socket hang up'')"
    by (simp add: demo_def demo_inspect_def)
  have v: "''g7'' \<in> set (Object_values [(''web'', ''a1''), (''tmp'', ''g7'')])"
    by (simp add: Object_values_def Object_entries_def is_array_index_def is_digit_def)
  show ?thesis
    using C2_inspect_failure_propagates [OF _ g, of "[(''web'', ''a1''), (''tmp'', ''g7'')]"] v
    by (simp add: err_text_def)
qed

theorem C2_counterexample:
  "on_inspect demo ''zz'' = Inl (Error ''no such container'')
   \<and> snd (getContainerStatus demo ''zz'')
       = Inl (Error ''Failed to get status for container zz: no such container'')
   \<and> getSelectedContainerResults demo (Inr ''All'') [(''db'', ''b2''), (''gone'', ''zz'')]
       = Rejected [Error ''Failed to get status for container zz: no such container'']"
proof -
  have z: "on_inspect demo ''zz'' = Inl (Error ''no such container'')"
    by (simp add: demo_def demo_inspect_def)
  have b: "on_inspect demo ''b2''
             = Inr \<lparr>Name = Some ''/db'', State = \<lparr>Running = False, Status = ''exited''\<rparr>,
                    Os = Some ''linux'', NetworkSettings = Some \<lparr>Ports = Some []\<rparr>\<rparr>"
    by (simp add: demo_def demo_inspect_def)
  have sz: "snd (getContainerStatus demo ''zz'')
              = Inl (Error ''Failed to get status for container zz: no such container'')"
    using getContainerStatus_inspect_fails [OF _ z] by (simp add: err_text_def)
  have sb: "snd (getContainerStatus demo ''b2'') = Inr (''db'', ''Container exited'', ''Unknown'')"
    using getContainerStatus_not_running [OF _ b] by (simp add: name_def replace_slash_def)
  have v: "Object_values [(''db'', ''b2''), (''gone'', ''zz'')] = [''b2'', ''zz'']"
    by (simp add: Object_values_def Object_entries_def is_array_index_def is_digit_def)
  have "getSelectedContainerResults demo (Inr ''All'') [(''db'', ''b2''), (''gone'', ''zz'')]
          = Rejected [Error ''Failed to get status for container zz: no such container'']"
    by (simp add: batch_all v sz sb)
  then show ?thesis using z sz by simp
qed

subsection \<open>Claim C3\<close>

text \<open>
  Claim C3, as amended. The resolver accepts the result of the command as the address
  if and only if the exit code is 0 and the trimmed output is a non-empty string of
  digits and dots, in any number and order; it then returns the trimmed output, and
  \<^verbatim>\<open>null\<close> for every other output.
\<close>

theorem C3_accepts_digits_and_dots:
  assumes "containerId \<noteq> []" and "snd (getOs containerId) = Inr osType"
    and "snd (run containerId (cmd osType)) = Inr r"
  shows "snd (getPublicIP run (Some getOs) containerId)
           = Inr (if exitCode r = 0 \<and> trim (output r) \<noteq> []
                     \<and> set (trim (output r)) \<subseteq> set ''0123456789.''
                  then Some (trim (output r)) else None)"
proof -
  obtain cs cs' where "getOs containerId = (cs, Inr osType)"
    and "run containerId (cmd osType) = (cs', Inr r)"
    using assms(2,3) by (metis prod.collapse)
  then show ?thesis
    using getPublicIP_steps [where run = run and getOs = getOs, OF assms(1)]
    by (simp add: test_digits_dots_iff)
qed

theorem C3_accepts_digits_and_dots_witness:
  "snd (getPublicIP (runCommand demo) (Some (getContainerOsType demo)) ''a1'')
     = Inr (Some ''203.0.113.7'')"
proof -
  have i: "on_inspect demo ''a1''
             = Inr \<lparr>Name = Some ''/web'', State = \<lparr>Running = True, Status = ''running''\<rparr>,
                    Os = None,
                    NetworkSettings = Some \<lparr>Ports = Some
                      [(''80/tcp'', Some [\<lparr>HostIp = ''0.0.0.0'', HostPort = ''8080''\<rparr>]),
                       (''443/tcp'', None)]\<rparr>\<rparr>"
    by (simp add: demo_def demo_inspect_def)
  have os: "snd (getContainerOsType demo ''a1'') = Inr ''linux''"
    using getContainerOsType_ok [OF _ i] by simp
  have e: "on_exec demo ''a1'' (cmd ''linux'')
             = Inr ([CHR 0x01, CHR 0x00, CHR 0x00, CHR 0x00, CHR 0x00, CHR 0x00, CHR 0x00,
                     CHR 0x0C] @ ''203.0.113.7'' @ [CHR 0x0A], 0)"
    by (simp add: demo_def demo_exec_def)
  have run: "snd (runCommand demo ''a1'' (cmd ''linux''))
               = Inr \<lparr>output = ''203.0.113.7'', exitCode = 0\<rparr>"
    using runCommand_ok [OF _ e]
    by (simp add: trim_def strip_unprintable_def printable_def is_whitespace_def)
  show ?thesis
    using C3_accepts_digits_and_dots [where run = "runCommand demo"
        and getOs = "getContainerOsType demo", OF _ os run]
    by (simp add: trim_def is_whitespace_def)
qed

theorem C3_counterexample:
  "snd (runCommand demo ''e5'' [''sh'', ''-c'', ''curl -s https://api.ipify.org''])
     = Inr \<lparr>output = ''12345'', exitCode = 0\<rparr>
   \<and> snd (getPublicIP (runCommand demo) (Some (getContainerOsType demo)) ''e5'')
       = Inr (Some ''12345'')
   \<and> \<not> spec_ipv4_pattern (trim ''12345'')"
proof -
  have i: "on_inspect demo ''e5''
             = Inr \<lparr>Name = Some ''/odd'', State = \<lparr>Running = True, Status = ''running''\<rparr>,
                    Os = Some ''linux'', NetworkSettings = None\<rparr>"
    by (simp add: demo_def demo_inspect_def)
  have os: "getContainerOsType demo ''e5'' = ([Inspect ''e5''], Inr ''linux'')"
    using getContainerOsType_ok [OF _ i]
    by (simp add: toLowerCase_def toLowerCase_char_def)
  have c: "cmd ''linux'' = [''sh'', ''-c'', ''curl -s https://api.ipify.org'']"
    by (simp add: cmd_def curlCmd_def)
  have e: "on_exec demo ''e5'' (cmd ''linux'') = Inr (''12345'', 0)"
    by (simp add: demo_def demo_exec_def)
  have run: "runCommand demo ''e5'' (cmd ''linux'')
               = ([Exec ''e5'' (cmd ''linux'')], Inr \<lparr>output = ''12345'', exitCode = 0\<rparr>)"
    using runCommand_ok [OF _ e]
    by (simp add: trim_def strip_unprintable_def printable_def is_whitespace_def)
  have t: "trim ''12345'' = ''12345''"
    by (simp add: trim_def is_whitespace_def)
  have ip: "snd (getPublicIP (runCommand demo) (Some (getContainerOsType demo)) ''e5'')
              = Inr (Some ''12345'')"
    using getPublicIP_steps [where run = "runCommand demo"
        and getOs = "getContainerOsType demo", OF _ os run]
    by (simp add: t test_digits_dots_def is_digit_def)
  have "\<not> spec_ipv4_pattern (trim ''12345'')"
    by (simp add: t spec_ipv4_pattern_def)
  then show ?thesis using run ip c by simp
qed

subsection \<open>Claim C4\<close>

text \<open>
  Claim C4, as amended. For every container whose inspected \<^verbatim>\<open>Running\<close> flag is false,
  the row that \<open>getContainerStatus\<close> resolves is exactly the container's name, the text
  \<^verbatim>\<open>Container\<close> followed by the reported status, and \<^verbatim>\<open>Unknown\<close>; the only call made
  for that container is the inspection, so no command is run in it and no location is
  looked up. The flag alone decides: a container whose flag is true is inspected again
  and a command is run in it, whatever its reported status.
\<close>

theorem C4_not_running_row:
  assumes "containerId \<noteq> []" and "on_inspect w containerId = Inr d"
  shows "(\<not> Running (State d)
          \<longrightarrow> getContainerStatus w containerId
                = ([Inspect containerId],
                   Inr (name d, ''Container '' @ Status (State d), ''Unknown'')))
       \<and> (Running (State d)
          \<longrightarrow> (\<exists>cs. fst (getContainerStatus w containerId)
                      = [Inspect containerId, Inspect containerId,
                         Exec containerId
                           (cmd (case Os d of None \<Rightarrow> ''linux''
                                 | Some os \<Rightarrow> if os = [] then ''linux''
                                              else toLowerCase os))] @ cs))"
proof (intro conjI impI)
  assume "\<not> Running (State d)"
  then show "getContainerStatus w containerId
                = ([Inspect containerId],
                   Inr (name d, ''Container '' @ Status (State d), ''Unknown''))"
    using assms
    by (simp add: getContainerStatus_def inspect_def bind_eff_def catch_eff_def return_eff_def)
next
  assume "Running (State d)"
  then show "\<exists>cs. fst (getContainerStatus w containerId)
                      = [Inspect containerId, Inspect containerId,
                         Exec containerId
                           (cmd (case Os d of None \<Rightarrow> ''linux''
                                 | Some os \<Rightarrow> if os = [] then ''linux''
                                              else toLowerCase os))] @ cs"
    using getContainerStatus_running_calls [OF assms] by simp
qed

theorem C4_not_running_row_witness:
  "getContainerStatus demo ''b2'' = ([Inspect ''b2''], Inr (''db'', ''Container exited'', ''Unknown''))
   \<and> (\<exists>cs. fst (getContainerStatus demo ''a1'')
             = [Inspect ''a1'', Inspect ''a1'',
                Exec ''a1'' [''sh'', ''-c'', ''curl -s https://api.ipify.org'']] @ cs)"
proof -
  have "getContainerStatus demo ''b2''
          = ([Inspect ''b2''], Inr (''db'', ''Container exited'', ''Unknown''))"
    using C4_not_running_row [of "''b2''" demo
        "\<lparr>Name = Some ''/db'', State = \<lparr>Running = False, Status = ''exited''\<rparr>,
          Os = Some ''linux'', NetworkSettings = Some \<lparr>Ports = Some []\<rparr>\<rparr>"]
      demo_inspect_b2
    by (simp add: name_def replace_slash_def)
  moreover have "\<exists>cs. fst (getContainerStatus demo ''a1'')
             = [Inspect ''a1'', Inspect ''a1'',
                Exec ''a1'' [''sh'', ''-c'', ''curl -s https://api.ipify.org'']] @ cs"
    using C4_not_running_row [OF _ demo_inspect_a1] by (simp add: cmd_linux)
  ultimately show ?thesis by simp
qed

theorem C4_counterexample:
  "on_inspect demo_paused ''p9''
     = Inr \<lparr>Name = Some ''/cache'', State = \<lparr>Running = True, Status = ''paused''\<rparr>,
            Os = Some ''linux'', NetworkSettings = None\<rparr>
   \<and> getContainerStatus demo_paused ''p9''
       = ([Inspect ''p9'', Inspect ''p9'',
           Exec ''p9'' [''sh'', ''-c'', ''curl -s https://api.ipify.org'']],
          Inl (Error ''Failed to get status for container p9: Failed to run command in container p9: Container p9 is paused, unpause the container before exec''))"
proof -
  have i: "on_inspect demo_paused ''p9''
     = Inr \<lparr>Name = Some ''/cache'', State = \<lparr>Running = True, Status = ''paused''\<rparr>,
            Os = Some ''linux'', NetworkSettings = None\<rparr>"
    by (simp add: demo_paused_def)
  have os: "getContainerOsType demo_paused ''p9'' = ([Inspect ''p9''], Inr ''linux'')"
    using getContainerOsType_ok [OF _ i] by (simp add: toLowerCase_linux)
  have e: "on_exec demo_paused ''p9'' (cmd ''linux'')
             = Inl (Error ''Container p9 is paused, unpause the container before exec'')"
    by (simp add: demo_paused_def)
  have ip: "getPublicIP (runCommand demo_paused) (Some (getContainerOsType demo_paused)) ''p9''
              = ([Inspect ''p9''] @ [Exec ''p9'' (cmd ''linux'')],
                 Inl (Error (''Failed to run command in container '' @ ''p9'' @ '': ''
                     @ err_text (Error ''Container p9 is paused, unpause the container before exec''))))"
    using getPublicIP_run_fails [where run = "runCommand demo_paused"
        and getOs = "getContainerOsType demo_paused", OF _ os runCommand_fails [OF _ e]]
    by simp
  have "getContainerStatus demo_paused ''p9''
       = ([Inspect ''p9'', Inspect ''p9'',
           Exec ''p9'' [''sh'', ''-c'', ''curl -s https://api.ipify.org'']],
          Inl (Error ''Failed to get status for container p9: Failed to run command in container p9: Container p9 is paused, unpause the container before exec''))"
    using i ip
    by (simp add: getContainerStatus_def inspect_def bind_eff_def catch_eff_def return_eff_def
        throw_eff_def err_text_def cmd_linux)
  then show ?thesis using i by simp
qed

subsection \<open>Claim C5\<close>

text \<open>
  Claim C5, as amended. For every running container where the command run in the
  container exits with a code other than 0, or where its trimmed output is empty or
  holds a character that is neither a digit nor a dot, the resolved address is
  \<^verbatim>\<open>null\<close> and the row is the container's name, \<^verbatim>\<open>Retrieval failed\<close> and
  \<^verbatim>\<open>Unknown\<close>; no location is looked up.
\<close>

theorem C5_failed_retrieval_row:
  assumes "containerId \<noteq> []" and "on_inspect w containerId = Inr d" and "Running (State d)"
    and "snd (getContainerOsType w containerId) = Inr osType"
    and "snd (runCommand w containerId (cmd osType)) = Inr r"
    and "exitCode r \<noteq> 0 \<or> trim (output r) = []
         \<or> \<not> set (trim (output r)) \<subseteq> set ''0123456789.''"
  shows "snd (getPublicIP (runCommand w) (Some (getContainerOsType w)) containerId) = Inr None
         \<and> snd (getContainerStatus w containerId)
             = Inr (name d, ''Retrieval failed'', ''Unknown'')
         \<and> fst (getContainerStatus w containerId)
             = [Inspect containerId, Inspect containerId, Exec containerId (cmd osType)]"
proof -
  have os: "getContainerOsType w containerId = ([Inspect containerId], Inr osType)"
    using assms(1,2,4) getContainerOsType_ok [of containerId w d] by simp
  have "on_exec w containerId (cmd osType) \<noteq> Inl err" for err
    using assms(1,5) runCommand_fails [of containerId w "cmd osType" err] by auto
  then obtain stream code where ex: "on_exec w containerId (cmd osType) = Inr (stream, code)"
    by (cases "on_exec w containerId (cmd osType)") auto
  have run: "runCommand w containerId (cmd osType) = ([Exec containerId (cmd osType)], Inr r)"
    using assms(1,5) runCommand_ok [OF assms(1) ex] by simp
  have ip: "getPublicIP (runCommand w) (Some (getContainerOsType w)) containerId
              = ([Inspect containerId, Exec containerId (cmd osType)], Inr None)"
    using getPublicIP_steps [where run = "runCommand w" and getOs = "getContainerOsType w",
        OF assms(1) os run] assms(6) unfolding test_digits_dots_iff by auto
  show ?thesis
    using assms(1,2,3) ip
    by (simp add: getContainerStatus_def inspect_def bind_eff_def catch_eff_def return_eff_def)
qed

theorem C5_failed_retrieval_row_witness:
  "snd (getPublicIP (runCommand demo) (Some (getContainerOsType demo)) ''c3'') = Inr None
   \<and> snd (getContainerStatus demo ''c3'') = Inr (''api'', ''Retrieval failed'', ''Unknown'')
   \<and> fst (getContainerStatus demo ''c3'')
       = [Inspect ''c3'', Inspect ''c3'',
          Exec ''c3'' [''sh'', ''-c'', ''curl -s https://api.ipify.org'']]"
proof -
  have i: "on_inspect demo ''c3''
             = Inr \<lparr>Name = Some ''/api'', State = \<lparr>Running = True, Status = ''running''\<rparr>,
                    Os = Some ''linux'', NetworkSettings = None\<rparr>"
    by (simp add: demo_def demo_inspect_def)
  have os: "snd (getContainerOsType demo ''c3'') = Inr ''linux''"
    using getContainerOsType_ok [OF _ i]
    by (simp add: toLowerCase_def toLowerCase_char_def)
  have c: "cmd ''linux'' = [''sh'', ''-c'', ''curl -s https://api.ipify.org'']"
    by (simp add: cmd_def curlCmd_def)
  have e: "on_exec demo ''c3'' (cmd ''linux'') = Inr (''connection refused'', 0)"
    by (simp add: demo_def demo_exec_def)
  have run: "snd (runCommand demo ''c3'' (cmd ''linux''))
               = Inr \<lparr>output = ''connection refused'', exitCode = 0\<rparr>"
    using runCommand_ok [OF _ e]
    by (simp add: trim_def strip_unprintable_def printable_def is_whitespace_def)
  have bad: "exitCode \<lparr>output = ''connection refused'', exitCode = 0\<rparr> \<noteq> 0
             \<or> trim (output \<lparr>output = ''connection refused'', exitCode = 0\<rparr>) = []
             \<or> \<not> set (trim (output \<lparr>output = ''connection refused'', exitCode = 0\<rparr>))
                   \<subseteq> set ''0123456789.''"
    by (simp add: trim_def is_whitespace_def)
  show ?thesis
    using C5_failed_retrieval_row [OF _ i _ os run bad] c
    by (simp add: name_def replace_slash_def)
qed

theorem C5_counterexample:
  "snd (runCommand demo ''h8'' [''sh'', ''-c'', ''curl -s https://api.ipify.org''])
     = Inr \<lparr>output = ''1..2'', exitCode = 0\<rparr>
   \<and> \<not> spec_ipv4_pattern (trim ''1..2'')
   \<and> snd (getPublicIP (runCommand demo) (Some (getContainerOsType demo)) ''h8'')
       = Inr (Some ''1..2'')
   \<and> snd (getContainerStatus demo ''h8'') = Inr (''dns'', ''1..2'', ''Lookup Failed'')"
proof -
  have i: "on_inspect demo ''h8''
             = Inr \<lparr>Name = Some ''/dns'', State = \<lparr>Running = True, Status = ''running''\<rparr>,
                    Os = Some ''linux'', NetworkSettings = None\<rparr>"
    by (simp add: demo_def demo_inspect_def)
  have os: "getContainerOsType demo ''h8'' = ([Inspect ''h8''], Inr ''linux'')"
    using getContainerOsType_ok [OF _ i] by (simp add: toLowerCase_linux)
  have e: "on_exec demo ''h8'' (cmd ''linux'') = Inr (''1..2'', 0)"
    by (simp add: demo_def demo_exec_def)
  have run: "runCommand demo ''h8'' (cmd ''linux'')
               = ([Exec ''h8'' (cmd ''linux'')], Inr \<lparr>output = ''1..2'', exitCode = 0\<rparr>)"
    using runCommand_ok [OF _ e]
    by (simp add: trim_def strip_unprintable_def printable_def is_whitespace_def)
  have t: "trim ''1..2'' = ''1..2''"
    by (simp add: trim_def is_whitespace_def)
  have ip: "getPublicIP (runCommand demo) (Some (getContainerOsType demo)) ''h8''
              = ([Inspect ''h8'', Exec ''h8'' (cmd ''linux'')], Inr (Some ''1..2''))"
    using getPublicIP_steps [where run = "runCommand demo"
        and getOs = "getContainerOsType demo", OF _ os run]
    by (simp add: t test_digits_dots_def is_digit_def)
  have loc: "snd (getLocation demo ''1..2'') = Inr ''Lookup Failed''"
    by (simp add: getLocation_def fetch_def response_json_def bind_eff_def catch_eff_def
        return_eff_def demo_def demo_fetch_def)
  have row: "snd (getContainerStatus demo ''h8'') = Inr (''dns'', ''1..2'', ''Lookup Failed'')"
    using getContainerStatus_running [OF _ i _ ip] loc
    by (simp add: name_def replace_slash_def)
  have "\<not> spec_ipv4_pattern (trim ''1..2'')"
    by (simp add: t spec_ipv4_pattern_def)
  then show ?thesis using run ip row by (simp add: cmd_linux)
qed

subsection \<open>Claim C6\<close>

text \<open>
  Claim C6. For every address passed to \<open>getLocation\<close>: a response whose \<^verbatim>\<open>status\<close>
  is \<^verbatim>\<open>fail\<close> gives \<^verbatim>\<open>Unknown\<close>; an error of the transport or of the parsing gives
  \<^verbatim>\<open>Lookup Failed\<close>; any other response with a country and a city gives the two,
  joined by a comma and a space, as they came, empty or not; and whatever the
  network answers, the function returns a string and throws nothing.
\<close>

theorem C6_location:
  assumes "ip \<noteq> []"
  shows "(on_fetch w (''http://ip-api.com/json/'' @ ip) = Inr (Json (JsonFields d))
            \<and> status d = Some ''fail''
          \<longrightarrow> snd (getLocation w ip) = Inr ''Unknown'')
       \<and> (on_fetch w (''http://ip-api.com/json/'' @ ip) = Inl err
          \<longrightarrow> snd (getLocation w ip) = Inr ''Lookup Failed'')
       \<and> (on_fetch w (''http://ip-api.com/json/'' @ ip) = Inr (InvalidJson err)
          \<longrightarrow> snd (getLocation w ip) = Inr ''Lookup Failed'')
       \<and> (on_fetch w (''http://ip-api.com/json/'' @ ip) = Inr (Json (JsonFields d))
            \<and> status d \<noteq> Some ''fail'' \<and> country d = Some c \<and> city d = Some t
          \<longrightarrow> snd (getLocation w ip) = Inr (c @ '', '' @ t))
       \<and> (\<exists>location. snd (getLocation w ip) = Inr location)"
proof -
  have "\<exists>location. snd (getLocation w ip) = Inr location"
    using getLocation_total [OF assms, of w] by auto
  then show ?thesis
    using assms
    by (simp add: getLocation_def fetch_def response_json_def bind_eff_def catch_eff_def
        return_eff_def throw_eff_def console_error_def template_def)
qed

theorem C6_location_witness:
  "snd (getLocation demo ''198.51.100.4'') = Inr ''Unknown''
   \<and> snd (getLocation demo ''10.0.0.1'') = Inr ''Lookup Failed''
   \<and> snd (getLocation demo ''192.0.2.1'') = Inr ''Lookup Failed''
   \<and> snd (getLocation demo ''203.0.113.7'') = Inr ''US, Ashburn''"
proof -
  have a: "on_fetch demo (''http://ip-api.com/json/'' @ ''198.51.100.4'')
             = Inr (Json (JsonFields \<lparr>status = Some ''fail'', country = None, city = None\<rparr>))"
    by (simp add: demo_def demo_fetch_def)
  have b: "on_fetch demo (''http://ip-api.com/json/'' @ ''10.0.0.1'')
             = Inl (TypeError ''fetch failed'')"
    by (simp add: demo_def demo_fetch_def)
  have c: "on_fetch demo (''http://ip-api.com/json/'' @ ''192.0.2.1'')
             = Inr (InvalidJson (Error ''Unexpected token''))"
    by (simp add: demo_def demo_fetch_def)
  have d: "on_fetch demo (''http://ip-api.com/json/'' @ ''203.0.113.7'')
             = Inr (Json (JsonFields
                 \<lparr>status = Some ''success'', country = Some ''US'', city = Some ''Ashburn''\<rparr>))"
    by (simp add: demo_def demo_fetch_def)
  have "snd (getLocation demo ''198.51.100.4'') = Inr ''Unknown''"
    using C6_location [of "''198.51.100.4''" demo
        "\<lparr>status = Some ''fail'', country = None, city = None\<rparr>"] a
    by simp
  moreover have "snd (getLocation demo ''10.0.0.1'') = Inr ''Lookup Failed''"
    using C6_location [of "''10.0.0.1''" demo _ "TypeError ''fetch failed''"] b
    by simp
  moreover have "snd (getLocation demo ''192.0.2.1'') = Inr ''Lookup Failed''"
    using C6_location [of "''192.0.2.1''" demo _ "Error ''Unexpected token''"] c
    by simp
  moreover have "snd (getLocation demo ''203.0.113.7'') = Inr ''US, Ashburn''"
    using C6_location [of "''203.0.113.7''" demo
        "\<lparr>status = Some ''success'', country = Some ''US'', city = Some ''Ashburn''\<rparr>"
        _ "''US''" "''Ashburn''"] d
    by simp
  ultimately show ?thesis by simp
qed

subsection \<open>Claim C7\<close>

text \<open>
  Claim C7, as amended. When the inspection of the container succeeds, the kind of
  operating system is \<^verbatim>\<open>other\<close> when the \<^verbatim>\<open>Os\<close> value is absent or empty, and
  \<^verbatim>\<open>windows\<close> exactly when the value, in lower case, contains \<^verbatim>\<open>win\<close>; the command
  run in the container is, for \<^verbatim>\<open>windows\<close>, the command string split at its spaces and,
  for \<^verbatim>\<open>other\<close>, the command string wrapped in \<^verbatim>\<open>sh -c\<close>. When the inspection fails,
  there is no default: the resolver throws the error of the inspection and runs no
  command.
\<close>

theorem C7_os_kind_and_command:
  assumes "containerId \<noteq> []"
  shows "(on_inspect w containerId = Inr d \<and> (Os d = None \<or> Os d = Some [])
          \<longrightarrow> fst (getPublicIP (runCommand w) (Some (getContainerOsType w)) containerId)
                = [Inspect containerId,
                   Exec containerId [''sh'', ''-c'', ''curl -s https://api.ipify.org'']])
       \<and> (on_inspect w containerId = Inr d \<and> Os d = Some os \<and> os \<noteq> []
          \<longrightarrow> fst (getPublicIP (runCommand w) (Some (getContainerOsType w)) containerId)
                = [Inspect containerId,
                   Exec containerId
                     (if includes_str (toLowerCase os) ''win''
                      then [''curl'', ''-s'', ''https://api.ipify.org'']
                      else [''sh'', ''-c'', ''curl -s https://api.ipify.org''])])
       \<and> (on_inspect w containerId = Inl err
          \<longrightarrow> getPublicIP (runCommand w) (Some (getContainerOsType w)) containerId
                = ([Inspect containerId],
                   Inl (Error (''Failed to get OS type for container '' @ containerId @ '': ''
                               @ err_text err))))"
proof (intro conjI impI)
  assume "on_inspect w containerId = Inr d \<and> (Os d = None \<or> Os d = Some [])"
  then show "fst (getPublicIP (runCommand w) (Some (getContainerOsType w)) containerId)
               = [Inspect containerId,
                  Exec containerId [''sh'', ''-c'', ''curl -s https://api.ipify.org'']]"
    using getPublicIP_calls [OF assms, of w d] by (auto simp: cmd_cases)
next
  assume "on_inspect w containerId = Inr d \<and> Os d = Some os \<and> os \<noteq> []"
  then show "fst (getPublicIP (runCommand w) (Some (getContainerOsType w)) containerId)
               = [Inspect containerId,
                  Exec containerId
                    (if includes_str (toLowerCase os) ''win''
                     then [''curl'', ''-s'', ''https://api.ipify.org'']
                     else [''sh'', ''-c'', ''curl -s https://api.ipify.org''])]"
    using getPublicIP_calls [OF assms, of w d] by (simp add: cmd_cases)
next
  assume "on_inspect w containerId = Inl err"
  then show "getPublicIP (runCommand w) (Some (getContainerOsType w)) containerId
               = ([Inspect containerId],
                  Inl (Error (''Failed to get OS type for container '' @ containerId @ '': ''
                              @ err_text err)))"
    using getPublicIP_os_fails [where run = "runCommand w" and getOs = "getContainerOsType w",
        OF assms getContainerOsType_fails [OF assms]]
    by simp
qed

theorem C7_os_kind_and_command_witness:
  "fst (getPublicIP (runCommand demo) (Some (getContainerOsType demo)) ''a1'')
     = [Inspect ''a1'', Exec ''a1'' [''sh'', ''-c'', ''curl -s https://api.ipify.org'']]
   \<and> fst (getPublicIP (runCommand demo) (Some (getContainerOsType demo)) ''f6'')
       = [Inspect ''f6'', Exec ''f6'' [''curl'', ''-s'', ''https://api.ipify.org'']]
   \<and> getPublicIP (runCommand demo) (Some (getContainerOsType demo)) ''zz''
       = ([Inspect ''zz''],
          Inl (Error ''Failed to get OS type for container zz: no such container''))"
proof -
  have a: "on_inspect demo ''a1''
             = Inr \<lparr>Name = Some ''/web'', State = \<lparr>Running = True, Status = ''running''\<rparr>,
                    Os = None,
                    NetworkSettings = Some \<lparr>Ports = Some
                      [(''80/tcp'', Some [\<lparr>HostIp = ''0.0.0.0'', HostPort = ''8080''\<rparr>]),
                       (''443/tcp'', None)]\<rparr>\<rparr>"
    by (simp add: demo_def demo_inspect_def)
  have f: "on_inspect demo ''f6''
             = Inr \<lparr>Name = Some ''/iis'', State = \<lparr>Running = True, Status = ''running''\<rparr>,
                    Os = Some ''Windows'', NetworkSettings = None\<rparr>"
    by (simp add: demo_def demo_inspect_def)
  have z: "on_inspect demo ''zz'' = Inl (Error ''no such container'')"
    by (simp add: demo_def demo_inspect_def)
  have low: "toLowerCase ''Windows'' = ''windows''"
    by (simp add: toLowerCase_def toLowerCase_char_def char_of_def bit_Suc_0_iff)
  have "fst (getPublicIP (runCommand demo) (Some (getContainerOsType demo)) ''a1'')
          = [Inspect ''a1'', Exec ''a1'' [''sh'', ''-c'', ''curl -s https://api.ipify.org'']]"
    using C7_os_kind_and_command [of "''a1''" demo
        "\<lparr>Name = Some ''/web'', State = \<lparr>Running = True, Status = ''running''\<rparr>,
          Os = None,
          NetworkSettings = Some \<lparr>Ports = Some
            [(''80/tcp'', Some [\<lparr>HostIp = ''0.0.0.0'', HostPort = ''8080''\<rparr>]),
             (''443/tcp'', None)]\<rparr>\<rparr>"] a
    by simp
  moreover have "fst (getPublicIP (runCommand demo) (Some (getContainerOsType demo)) ''f6'')
          = [Inspect ''f6'', Exec ''f6'' [''curl'', ''-s'', ''https://api.ipify.org'']]"
    using C7_os_kind_and_command [of "''f6''" demo
        "\<lparr>Name = Some ''/iis'', State = \<lparr>Running = True, Status = ''running''\<rparr>,
          Os = Some ''Windows'', NetworkSettings = None\<rparr>" "''Windows''"] f low
    by simp
  moreover have "getPublicIP (runCommand demo) (Some (getContainerOsType demo)) ''zz''
          = ([Inspect ''zz''],
             Inl (Error ''Failed to get OS type for container zz: no such container''))"
    using C7_os_kind_and_command [of "''zz''" demo _ _ "Error ''no such container''"] z
    by (simp add: err_text_def)
  ultimately show ?thesis by simp
qed

theorem C7_counterexample:
  "on_inspect demo ''g7'' = Inl (Error ''socket hang up'')
   \<and> snd (runCommand demo ''g7'' [''sh'', ''-c'', ''curl -s https://api.ipify.org''])
       = Inr \<lparr>output = ''192.0.2.1'', exitCode = 0\<rparr>
   \<and> getPublicIP (runCommand demo) (Some (getContainerOsType demo)) ''g7''
       = ([Inspect ''g7''],
          Inl (Error ''Failed to get OS type for container g7: socket hang up''))"
proof -
  have g: "on_inspect demo ''g7'' = Inl (Error ''socket hang up'')"
    by (simp add: demo_def demo_inspect_def)
  have e: "on_exec demo ''g7'' [''sh'', ''-c'', ''curl -s https://api.ipify.org'']
             = Inr (''192.0.2.1'', 0)"
    by (simp add: demo_def demo_exec_def)
  have run: "snd (runCommand demo ''g7'' [''sh'', ''-c'', ''curl -s https://api.ipify.org''])
               = Inr \<lparr>output = ''192.0.2.1'', exitCode = 0\<rparr>"
    using runCommand_ok [OF _ e]
    by (simp add: trim_def strip_unprintable_def printable_def is_whitespace_def)
  have "getPublicIP (runCommand demo) (Some (getContainerOsType demo)) ''g7''
          = ([Inspect ''g7''],
             Inl (Error ''Failed to get OS type for container g7: socket hang up''))"
    using getPublicIP_os_fails [where run = "runCommand demo"
        and getOs = "getContainerOsType demo", OF _ getContainerOsType_fails [OF _ g]]
    by (simp add: err_text_def)
  then show ?thesis using g run by simp
qed

subsection \<open>Claim C8\<close>

text \<open>
  Claim C8, as amended. In ports mode every entry of the name-to-id map produces exactly
  one row, in the listing order of the map, under its name; the map has one entry per
  distinct normalized name, hence one per listed container when the names differ, and a
  container whose name another container takes over gets no row. The cell of a row
  shows one line per port that has bindings, in the order of the ports; a binding of a
  container port is written as the host address, a colon, the host port, an arrow and
  the container port, and the bindings of one port are separated by a comma and a
  space. A container without any binding, or without network settings or ports at all,
  shows \<^verbatim>\<open>No ports exposed\<close>; and when the ports of one container cannot be fetched,
  the error is shown in that container's own cell while the others keep their rows.
\<close>

theorem C8_ports_rows:
  assumes "containerMap \<noteq> []"
  shows "(\<exists>portRows.
            snd (listContainerPorts w containerMap) = PortsTable portRows
            \<and> length portRows = length containerMap
            \<and> map fst portRows = Object_keys containerMap
            \<and> map snd portRows
                = map (\<lambda>containerId.
                         case snd (getContainerPorts w containerId) of
                           Inl err \<Rightarrow> ''Error retrieving ports ('' @ err_text err @ '')''
                         | Inr [] \<Rightarrow> ''No ports exposed''
                         | Inr (p # rest) \<Rightarrow> p @ concat (map (\<lambda>q. CHR 0x0A # q) rest))
                      (Object_values containerMap))
       \<and> (list_all (\<lambda>(k, v). \<not> is_array_index k) containerMap
          \<longrightarrow> Object_keys containerMap = map fst containerMap
              \<and> Object_values containerMap = map snd containerMap)
       \<and> (containerId \<noteq> [] \<and> on_inspect w containerId = Inr d
            \<and> NetworkSettings d = Some ns \<and> Ports ns = Some ps
          \<longrightarrow> snd (getContainerPorts w containerId)
                = Inr (concat
                    (map (\<lambda>(containerPort, bindings).
                            case bindings of
                              None \<Rightarrow> []
                            | Some [] \<Rightarrow> []
                            | Some (b # bs) \<Rightarrow>
                                [HostIp b @ '':'' @ HostPort b @ ''->'' @ containerPort
                                 @ concat (map (\<lambda>b'. '', '' @ HostIp b' @ '':'' @ HostPort b'
                                                      @ ''->'' @ containerPort) bs)])
                         ps)))
       \<and> (containerId \<noteq> [] \<and> on_inspect w containerId = Inr d
            \<and> (NetworkSettings d = None \<or> NetworkSettings d = Some \<lparr>Ports = None\<rparr>)
          \<longrightarrow> snd (getContainerPorts w containerId) = Inr [])
       \<and> (containerId \<noteq> [] \<and> on_inspect w containerId = Inr d
            \<and> NetworkSettings d = Some ns \<and> Ports ns = Some ps
            \<and> list_all (\<lambda>(containerPort, bindings). bindings = None \<or> bindings = Some []) ps
          \<longrightarrow> snd (getContainerPorts w containerId) = Inr [])
       \<and> (containerId \<noteq> [] \<and> on_inspect w containerId = Inl err
          \<longrightarrow> snd (getContainerPorts w containerId)
                = Inl (Error (''Failed to get ports for container '' @ containerId @ '': ''
                              @ err_text err)))
       \<and> (on_listContainers w = Inr containers \<and> distinct (map container_key containers)
            \<and> snd (getContainerMap w) = Inr containerMap
          \<longrightarrow> length containerMap = length containers)"
proof (intro conjI impI)
  let ?cell = "\<lambda>containerId.
                 case snd (getContainerPorts w containerId) of
                   Inl err \<Rightarrow> ''Error retrieving ports ('' @ err_text err @ '')''
                 | Inr [] \<Rightarrow> ''No ports exposed''
                 | Inr (p # rest) \<Rightarrow> p @ concat (map (\<lambda>q. CHR 0x0A # q) rest)"
  let ?rows = "map (\<lambda>(key, containerId). (key, ?cell containerId)) (Object_entries containerMap)"
  have t: "snd (listContainerPorts w containerMap) = PortsTable ?rows"
    using listContainerPorts_table [OF assms] .
  have l: "length ?rows = length containerMap"
    by (simp add: length_Object_entries)
  have k: "map fst ?rows = Object_keys containerMap"
    by (simp add: Object_keys_def split_beta)
  have c: "map snd ?rows = map ?cell (Object_values containerMap)"
    by (simp add: Object_values_def split_beta)
  show "\<exists>portRows.
            snd (listContainerPorts w containerMap) = PortsTable portRows
            \<and> length portRows = length containerMap
            \<and> map fst portRows = Object_keys containerMap
            \<and> map snd portRows = map ?cell (Object_values containerMap)"
    using t l k c by blast
next
  assume "list_all (\<lambda>(k, v). \<not> is_array_index k) containerMap"
  then show "Object_keys containerMap = map fst containerMap"
    by (simp add: Object_keys_def Object_entries_plain)
next
  assume "list_all (\<lambda>(k, v). \<not> is_array_index k) containerMap"
  then show "Object_values containerMap = map snd containerMap"
    by (rule Object_values_plain)
next
  assume a: "containerId \<noteq> [] \<and> on_inspect w containerId = Inr d
            \<and> NetworkSettings d = Some ns \<and> Ports ns = Some ps"
  have n: "containerId \<noteq> []" and i: "on_inspect w containerId = Inr d"
    and ns: "NetworkSettings d = Some ns" and ps: "Ports ns = Some ps"
    using a by simp_all
  show "snd (getContainerPorts w containerId)
                = Inr (concat
                    (map (\<lambda>(containerPort, bindings).
                            case bindings of
                              None \<Rightarrow> []
                            | Some [] \<Rightarrow> []
                            | Some (b # bs) \<Rightarrow>
                                [HostIp b @ '':'' @ HostPort b @ ''->'' @ containerPort
                                 @ concat (map (\<lambda>b'. '', '' @ HostIp b' @ '':'' @ HostPort b'
                                                      @ ''->'' @ containerPort) bs)])
                         ps))"
    by (simp only: getContainerPorts_ok [OF n i] ns ps option.case snd_conv
        filter_Boolean_concat)
next
  assume "containerId \<noteq> [] \<and> on_inspect w containerId = Inr d
            \<and> (NetworkSettings d = None \<or> NetworkSettings d = Some \<lparr>Ports = None\<rparr>)"
  then show "snd (getContainerPorts w containerId) = Inr []"
    using getContainerPorts_ok [of containerId w d] by auto
next
  assume "containerId \<noteq> [] \<and> on_inspect w containerId = Inr d
            \<and> NetworkSettings d = Some ns \<and> Ports ns = Some ps
            \<and> list_all (\<lambda>(containerPort, bindings). bindings = None \<or> bindings = Some []) ps"
  then show "snd (getContainerPorts w containerId) = Inr []"
    using getContainerPorts_ok [of containerId w d] filter_Boolean_none [of ps]
    by simp
next
  assume "containerId \<noteq> [] \<and> on_inspect w containerId = Inl err"
  then show "snd (getContainerPorts w containerId)
                = Inl (Error (''Failed to get ports for container '' @ containerId @ '': ''
                              @ err_text err))"
    using getContainerPorts_fails [of containerId w err] by simp
next
  assume "on_listContainers w = Inr containers \<and> distinct (map container_key containers)
            \<and> snd (getContainerMap w) = Inr containerMap"
  then show "length containerMap = length containers"
    using getContainerMap_distinct [of w containers containerMap] by simp
qed


theorem C8_ports_rows_witness:
  "snd (listContainerPorts demo_ports
          [(''web'', ''a1''), (''proxy'', ''m3''), (''idle'', ''n4''), (''api'', ''c3''),
           (''gone'', ''zz'')])
     = PortsTable
         [(''web'', ''0.0.0.0:8080->80/tcp''),
          (''proxy'', ''0.0.0.0:8080->80/tcp, :::8080->80/tcp'' @ [CHR 0x0A]
                      @ ''0.0.0.0:8443->443/tcp''),
          (''idle'', ''No ports exposed''),
          (''api'', ''No ports exposed''),
          (''gone'', ''Error retrieving ports (Failed to get ports for container zz: no such container)'')]
   \<and> snd (getContainerPorts demo_ports ''m3'')
       = Inr [''0.0.0.0:8080->80/tcp, :::8080->80/tcp'', ''0.0.0.0:8443->443/tcp'']
   \<and> snd (getContainerPorts demo_ports ''n4'') = Inr []
   \<and> snd (getContainerPorts demo_ports ''c3'') = Inr []
   \<and> snd (getContainerPorts demo_ports ''zz'')
       = Inl (Error ''Failed to get ports for container zz: no such container'')
   \<and> snd (getContainerMap demo) = Inr [(''web'', ''a1''), (''db'', ''b2''), (''api'', ''c3'')]
   \<and> length [(''web'', ''a1''), (''db'', ''b2''), (''api'', ''c3'')]
       = length [\<lparr>Names = Some [''/web''], Id' = ''a1''\<rparr>,
                 \<lparr>Names = Some [''/db''], Id' = ''b2''\<rparr>,
                 \<lparr>Names = Some [''/api''], Id' = ''c3''\<rparr>]"
proof -
  let ?cm = "[(''web'', ''a1''), (''proxy'', ''m3''), (''idle'', ''n4''), (''api'', ''c3''),
              (''gone'', ''zz'')]"
  let ?cs = "[\<lparr>Names = Some [''/web''], Id' = ''a1''\<rparr>,
              \<lparr>Names = Some [''/db''], Id' = ''b2''\<rparr>,
              \<lparr>Names = Some [''/api''], Id' = ''c3''\<rparr>]"
  let ?dm = "[(''web'', ''a1''), (''db'', ''b2''), (''api'', ''c3'')]"
  let ?pa = "[(''80/tcp'', Some [\<lparr>HostIp = ''0.0.0.0'', HostPort = ''8080''\<rparr>]),
              (''443/tcp'', None)]"
  let ?pm = "[(''80/tcp'', Some [\<lparr>HostIp = ''0.0.0.0'', HostPort = ''8080''\<rparr>,
                                 \<lparr>HostIp = ''::'', HostPort = ''8080''\<rparr>]),
              (''53/udp'', None),
              (''443/tcp'', Some [\<lparr>HostIp = ''0.0.0.0'', HostPort = ''8443''\<rparr>]),
              (''9000/tcp'', Some [])]"
  let ?pn = "[(''53/udp'', None), (''9000/tcp'', Some [])]"
  have ia: "on_inspect demo_ports ''a1''
              = Inr \<lparr>Name = Some ''/web'', State = \<lparr>Running = True, Status = ''running''\<rparr>,
                     Os = None, NetworkSettings = Some \<lparr>Ports = Some ?pa\<rparr>\<rparr>"
    using demo_inspect_a1 by (simp add: demo_ports_inspect_other)
  have ic: "on_inspect demo_ports ''c3''
              = Inr \<lparr>Name = Some ''/api'', State = \<lparr>Running = True, Status = ''running''\<rparr>,
                     Os = Some ''linux'', NetworkSettings = None\<rparr>"
    using demo_inspect_c3 by (simp add: demo_ports_inspect_other)
  have iz: "on_inspect demo_ports ''zz'' = Inl (Error ''no such container'')"
    using demo_inspect_zz by (simp add: demo_ports_inspect_other)
  have pa: "snd (getContainerPorts demo_ports ''a1'') = Inr [''0.0.0.0:8080->80/tcp'']"
    using C8_ports_rows [where containerMap = ?cm and w = demo_ports and containerId = "''a1''"
        and d = "\<lparr>Name = Some ''/web'', State = \<lparr>Running = True, Status = ''running''\<rparr>,
                  Os = None, NetworkSettings = Some \<lparr>Ports = Some ?pa\<rparr>\<rparr>"
        and ns = "\<lparr>Ports = Some ?pa\<rparr>" and ps = ?pa,
        THEN conjunct2, THEN conjunct2, THEN conjunct1] ia
    by simp
  have pm: "snd (getContainerPorts demo_ports ''m3'')
              = Inr [''0.0.0.0:8080->80/tcp, :::8080->80/tcp'', ''0.0.0.0:8443->443/tcp'']"
    using C8_ports_rows [where containerMap = ?cm and w = demo_ports and containerId = "''m3''"
        and d = "\<lparr>Name = Some ''/proxy'', State = \<lparr>Running = True, Status = ''running''\<rparr>,
                  Os = Some ''linux'', NetworkSettings = Some \<lparr>Ports = Some ?pm\<rparr>\<rparr>"
        and ns = "\<lparr>Ports = Some ?pm\<rparr>" and ps = ?pm,
        THEN conjunct2, THEN conjunct2, THEN conjunct1] demo_ports_inspect_m3
    by simp
  have pn: "snd (getContainerPorts demo_ports ''n4'') = Inr []"
    using C8_ports_rows [where containerMap = ?cm and w = demo_ports and containerId = "''n4''"
        and d = "\<lparr>Name = Some ''/idle'', State = \<lparr>Running = True, Status = ''running''\<rparr>,
                  Os = Some ''linux'', NetworkSettings = Some \<lparr>Ports = Some ?pn\<rparr>\<rparr>"
        and ns = "\<lparr>Ports = Some ?pn\<rparr>" and ps = ?pn,
        THEN conjunct2, THEN conjunct2, THEN conjunct2, THEN conjunct2, THEN conjunct1]
      demo_ports_inspect_n4
    by simp
  have pc: "snd (getContainerPorts demo_ports ''c3'') = Inr []"
    using C8_ports_rows [where containerMap = ?cm and w = demo_ports and containerId = "''c3''"
        and d = "\<lparr>Name = Some ''/api'', State = \<lparr>Running = True, Status = ''running''\<rparr>,
                  Os = Some ''linux'', NetworkSettings = None\<rparr>",
        THEN conjunct2, THEN conjunct2, THEN conjunct2, THEN conjunct1] ic
    by simp
  have pz: "snd (getContainerPorts demo_ports ''zz'')
              = Inl (Error ''Failed to get ports for container zz: no such container'')"
    using C8_ports_rows [where containerMap = ?cm and w = demo_ports and containerId = "''zz''"
        and err = "Error ''no such container''",
        THEN conjunct2, THEN conjunct2, THEN conjunct2, THEN conjunct2, THEN conjunct2,
        THEN conjunct1] iz
    by (simp add: err_text_def)
  have plain: "list_all (\<lambda>(k, v). \<not> is_array_index k) ?cm"
    by (simp add: is_array_index_def is_digit_def)
  have kv: "Object_keys ?cm = map fst ?cm \<and> Object_values ?cm = map snd ?cm"
    using C8_ports_rows [where containerMap = ?cm and w = demo_ports,
        THEN conjunct2, THEN conjunct1] plain
    by simp
  obtain portRows where
    t: "snd (listContainerPorts demo_ports ?cm) = PortsTable portRows"
    and k: "map fst portRows = Object_keys ?cm"
    and c: "map snd portRows
              = map (\<lambda>containerId.
                       case snd (getContainerPorts demo_ports containerId) of
                         Inl err \<Rightarrow> ''Error retrieving ports ('' @ err_text err @ '')''
                       | Inr [] \<Rightarrow> ''No ports exposed''
                       | Inr (p # rest) \<Rightarrow> p @ concat (map (\<lambda>q. CHR 0x0A # q) rest))
                    (Object_values ?cm)"
    using C8_ports_rows [where containerMap = ?cm and w = demo_ports, THEN conjunct1] by auto
  have "portRows = zip (map fst portRows) (map snd portRows)"
    by (simp add: zip_map_fst_snd)
  then have rows: "portRows
      = [(''web'', ''0.0.0.0:8080->80/tcp''),
         (''proxy'', ''0.0.0.0:8080->80/tcp, :::8080->80/tcp'' @ [CHR 0x0A]
                     @ ''0.0.0.0:8443->443/tcp''),
         (''idle'', ''No ports exposed''),
         (''api'', ''No ports exposed''),
         (''gone'', ''Error retrieving ports (Failed to get ports for container zz: no such container)'')]"
    unfolding k c
    by (simp add: kv pa pm pn pc pz err_text_def)
  have ls: "on_listContainers demo = Inr ?cs"
    by (simp add: demo_def)
  have dm: "snd (getContainerMap demo) = Inr ?dm"
    using getContainerMap_ok [OF ls]
    by (simp add: Object_fromEntries_def container_key_def replace_slash_def)
  have di: "distinct (map container_key ?cs)"
    by (simp add: container_key_def replace_slash_def)
  have len: "length ?dm = length ?cs"
    using C8_ports_rows [where containerMap = ?dm and w = demo and containers = ?cs,
        THEN conjunct2, THEN conjunct2, THEN conjunct2, THEN conjunct2, THEN conjunct2,
        THEN conjunct2] ls dm di
    by simp
  show ?thesis using t rows pm pn pc pz dm len by simp
qed

theorem C8_counterexample:
  "on_listContainers demo_twins
     = Inr [\<lparr>Names = None, Id' = ''a1''\<rparr>, \<lparr>Names = Some [''/db''], Id' = ''b2''\<rparr>,
            \<lparr>Names = Some [], Id' = ''c3''\<rparr>]
   \<and> snd (getContainerPorts demo_twins ''a1'') = Inr [''0.0.0.0:8080->80/tcp'']
   \<and> snd (getContainerMap demo_twins) = Inr [(''Unknown'', ''c3''), (''db'', ''b2'')]
   \<and> snd (listContainerPorts demo_twins [(''Unknown'', ''c3''), (''db'', ''b2'')])
       = PortsTable [(''Unknown'', ''No ports exposed''), (''db'', ''No ports exposed'')]"
proof -
  let ?cm = "[(''Unknown'', ''c3''), (''db'', ''b2'')]"
  have l: "on_listContainers demo_twins
     = Inr [\<lparr>Names = None, Id' = ''a1''\<rparr>, \<lparr>Names = Some [''/db''], Id' = ''b2''\<rparr>,
            \<lparr>Names = Some [], Id' = ''c3''\<rparr>]"
    by (simp add: demo_twins_def)
  have m: "snd (getContainerMap demo_twins) = Inr ?cm"
    using getContainerMap_ok [OF l]
    by (simp add: Object_fromEntries_def container_key_def replace_slash_def)
  have e: "Object_entries ?cm = ?cm"
    by (simp add: Object_entries_plain is_array_index_def is_digit_def)
  have pc: "snd (getContainerPorts demo_twins ''c3'') = Inr []"
    using getContainerPorts_ok [of "''c3''" demo_twins] demo_inspect_c3
    by (simp add: demo_twins_inspect)
  have pb: "snd (getContainerPorts demo_twins ''b2'') = Inr []"
    using getContainerPorts_ok [of "''b2''" demo_twins] demo_inspect_b2
    by (simp add: demo_twins_inspect)
  have "snd (listContainerPorts demo_twins ?cm)
          = PortsTable [(''Unknown'', ''No ports exposed''), (''db'', ''No ports exposed'')]"
    using listContainerPorts_table [of ?cm demo_twins]
    by (simp add: e pc pb)
  moreover have "snd (getContainerPorts demo_twins ''a1'') = Inr [''0.0.0.0:8080->80/tcp'']"
    using getContainerPorts_ok [of "''a1''" demo_twins] demo_inspect_a1
    by (simp add: demo_twins_inspect)
  ultimately show ?thesis using l m by simp
qed

subsection \<open>Claim C9\<close>

text \<open>
  Claim C9, as amended. In every row that \<open>getContainerStatus\<close> produces, the location
  is a place (neither \<^verbatim>\<open>Unknown\<close> nor \<^verbatim>\<open>Lookup Failed\<close>) only when the second field
  is the accepted output of the command: a non-empty string of digits and dots.
\<close>

theorem C9_place_only_with_accepted_output:
  assumes "snd (getContainerStatus w containerId) = Inr (nm, ipOrStatus, location)"
    and "location \<noteq> ''Unknown''" and "location \<noteq> ''Lookup Failed''"
  shows "ipOrStatus \<noteq> [] \<and> set ipOrStatus \<subseteq> set ''0123456789.''"
proof -
  have ne: "containerId \<noteq> []"
    using assms(1) by (auto simp: getContainerStatus_def throw_eff_def)
  obtain d where d: "on_inspect w containerId = Inr d"
    using assms(1) ne
    by (cases "on_inspect w containerId")
       (auto simp: getContainerStatus_def inspect_def bind_eff_def catch_eff_def throw_eff_def)
  have running: "Running (State d)"
    using assms(1,2) getContainerStatus_not_running [OF ne d] by auto
  obtain cs res where ip: "getPublicIP (runCommand w) (Some (getContainerOsType w)) containerId
                             = (cs, res)"
    by (cases "getPublicIP (runCommand w) (Some (getContainerOsType w)) containerId")
  have "res = Inr (Some ipOrStatus)"
    using assms(1,2) getContainerStatus_running [OF ne d running ip]
    by (auto split: sum.splits option.splits if_splits)
  then have "test_digits_dots ipOrStatus"
    using ip getPublicIP_Some by blast
  then show ?thesis unfolding test_digits_dots_iff .
qed

theorem C9_place_only_with_accepted_output_witness:
  "snd (getContainerStatus demo ''a1'') = Inr (''web'', ''203.0.113.7'', ''US, Ashburn'')
   \<and> ''203.0.113.7'' \<noteq> [] \<and> set ''203.0.113.7'' \<subseteq> set ''0123456789.''"
proof -
  have i: "on_inspect demo ''a1''
             = Inr \<lparr>Name = Some ''/web'', State = \<lparr>Running = True, Status = ''running''\<rparr>,
                    Os = None,
                    NetworkSettings = Some \<lparr>Ports = Some
                      [(''80/tcp'', Some [\<lparr>HostIp = ''0.0.0.0'', HostPort = ''8080''\<rparr>]),
                       (''443/tcp'', None)]\<rparr>\<rparr>"
    by (simp add: demo_def demo_inspect_def)
  have os: "getContainerOsType demo ''a1'' = ([Inspect ''a1''], Inr ''linux'')"
    using getContainerOsType_ok [OF _ i] by simp
  have e: "on_exec demo ''a1'' (cmd ''linux'')
             = Inr ([CHR 0x01, CHR 0x00, CHR 0x00, CHR 0x00, CHR 0x00, CHR 0x00, CHR 0x00,
                     CHR 0x0C] @ ''203.0.113.7'' @ [CHR 0x0A], 0)"
    by (simp add: demo_def demo_exec_def)
  have run: "runCommand demo ''a1'' (cmd ''linux'')
               = ([Exec ''a1'' (cmd ''linux'')], Inr \<lparr>output = ''203.0.113.7'', exitCode = 0\<rparr>)"
    using runCommand_ok [OF _ e]
    by (simp add: trim_def strip_unprintable_def printable_def is_whitespace_def)
  have t: "trim ''203.0.113.7'' = ''203.0.113.7''"
    by (simp add: trim_def is_whitespace_def)
  have ip: "getPublicIP (runCommand demo) (Some (getContainerOsType demo)) ''a1''
              = ([Inspect ''a1'', Exec ''a1'' (cmd ''linux'')], Inr (Some ''203.0.113.7''))"
    using getPublicIP_steps [where run = "runCommand demo"
        and getOs = "getContainerOsType demo", OF _ os run]
    by (simp add: t test_digits_dots_def is_digit_def)
  have loc: "getLocation demo ''203.0.113.7''
               = ([Fetch ''http://ip-api.com/json/203.0.113.7''], Inr ''US, Ashburn'')"
    by (simp add: getLocation_def fetch_def response_json_def bind_eff_def catch_eff_def
        return_eff_def demo_def demo_fetch_def template_def)
  have row: "snd (getContainerStatus demo ''a1'') = Inr (''web'', ''203.0.113.7'', ''US, Ashburn'')"
    using i ip loc
    by (simp add: getContainerStatus_def inspect_def bind_eff_def catch_eff_def return_eff_def
        name_def replace_slash_def)
  show ?thesis
    using C9_place_only_with_accepted_output [OF row] row by simp
qed

theorem C9_counterexample:
  "snd (getContainerStatus demo ''e5'') = Inr (''odd'', ''12345'', ''US, Ashburn'')
   \<and> ''US, Ashburn'' \<noteq> ''Unknown'' \<and> ''US, Ashburn'' \<noteq> ''Lookup Failed''
   \<and> \<not> spec_ipv4_pattern ''12345''"
proof -
  have i: "on_inspect demo ''e5''
             = Inr \<lparr>Name = Some ''/odd'', State = \<lparr>Running = True, Status = ''running''\<rparr>,
                    Os = Some ''linux'', NetworkSettings = None\<rparr>"
    by (simp add: demo_def demo_inspect_def)
  have os: "getContainerOsType demo ''e5'' = ([Inspect ''e5''], Inr ''linux'')"
    using getContainerOsType_ok [OF _ i]
    by (simp add: toLowerCase_def toLowerCase_char_def)
  have e: "on_exec demo ''e5'' (cmd ''linux'') = Inr (''12345'', 0)"
    by (simp add: demo_def demo_exec_def)
  have run: "runCommand demo ''e5'' (cmd ''linux'')
               = ([Exec ''e5'' (cmd ''linux'')], Inr \<lparr>output = ''12345'', exitCode = 0\<rparr>)"
    using runCommand_ok [OF _ e]
    by (simp add: trim_def strip_unprintable_def printable_def is_whitespace_def)
  have t: "trim ''12345'' = ''12345''"
    by (simp add: trim_def is_whitespace_def)
  have ip: "getPublicIP (runCommand demo) (Some (getContainerOsType demo)) ''e5''
              = ([Inspect ''e5'', Exec ''e5'' (cmd ''linux'')], Inr (Some ''12345''))"
    using getPublicIP_steps [where run = "runCommand demo"
        and getOs = "getContainerOsType demo", OF _ os run]
    by (simp add: t test_digits_dots_def is_digit_def)
  have loc: "getLocation demo ''12345''
               = ([Fetch ''http://ip-api.com/json/12345''], Inr ''US, Ashburn'')"
    by (simp add: getLocation_def fetch_def response_json_def bind_eff_def catch_eff_def
        return_eff_def demo_def demo_fetch_def template_def)
  have row: "snd (getContainerStatus demo ''e5'') = Inr (''odd'', ''12345'', ''US, Ashburn'')"
    using i ip loc
    by (simp add: getContainerStatus_def inspect_def bind_eff_def catch_eff_def return_eff_def
        name_def replace_slash_def)
  have "\<not> spec_ipv4_pattern ''12345''"
    by (simp add: spec_ipv4_pattern_def)
  then show ?thesis using row by simp
qed

subsection \<open>Claim C10\<close>

text \<open>
  Claim C10. When two containers of the listing have the same normalized name, the
  name-to-id map keeps one entry for that name, with the id of the later container. The
  map has one entry per distinct name, so the batch mode resolves one pipeline per distinct
  name, and a fulfilled batch has one row per distinct name: strictly fewer than the
  containers listed as soon as a name occurs twice.
\<close>

theorem C10_later_name_wins:
  assumes "on_listContainers w = Inr containers"
    and "snd (getContainerMap w) = Inr containerMap"
  shows "length (Object_values containerMap) = card (container_key ` set containers)
       \<and> (containers = xs @ c # ys \<and> container_key c \<notin> container_key ` set ys
          \<longrightarrow> get_property containerMap (container_key c) = Some (Id' c))
       \<and> (\<not> distinct (map container_key containers)
          \<longrightarrow> length (Object_values containerMap) < length containers)
       \<and> (getSelectedContainerResults w (Inr ''All'') containerMap = Fulfilled rows
          \<longrightarrow> length rows = card (container_key ` set containers)
              \<and> (\<not> distinct (map container_key containers) \<longrightarrow> length rows < length containers))"
proof -
  let ?es = "map (\<lambda>c. (container_key c, Id' c)) containers"
  have cm: "containerMap = Object_fromEntries ?es"
    using assms getContainerMap_ok [OF assms(1)] by simp
  have keys: "fst ` set ?es = container_key ` set containers"
    by force
  have len: "length (Object_values containerMap) = card (container_key ` set containers)"
  proof -
    have "length (Object_values containerMap) = card (fst ` set ?es)"
      by (simp only: cm length_Object_values length_fromEntries)
    then show ?thesis by (simp only: keys)
  qed
  have later: "get_property containerMap (container_key c) = Some (Id' c)"
    if "containers = xs @ c # ys \<and> container_key c \<notin> container_key ` set ys"
  proof -
    have "?es = map (\<lambda>c. (container_key c, Id' c)) xs
                @ (container_key c, Id' c) # map (\<lambda>c. (container_key c, Id' c)) ys"
      using that by simp
    moreover have "container_key c \<notin> fst ` set (map (\<lambda>c. (container_key c, Id' c)) ys)"
      using that by force
    ultimately show ?thesis
      unfolding cm using get_property_last [of "container_key c" _ _ "Id' c"] by simp
  qed
  have fewer: "card (container_key ` set containers) < length containers"
    if "\<not> distinct (map container_key containers)"
  proof -
    have "card (set (map container_key containers)) \<le> length (map container_key containers)"
      by (rule card_length)
    moreover have "card (set (map container_key containers)) \<noteq> length (map container_key containers)"
      using that card_distinct by blast
    ultimately show ?thesis by simp
  qed
  have rows: "length rows = card (container_key ` set containers)"
    if f: "getSelectedContainerResults w (Inr ''All'') containerMap = Fulfilled rows"
  proof -
    have "length (map Inr rows :: (js_error + status_row) list)
            = length (Object_values containerMap)"
      unfolding batch_fulfilled [OF f] by simp
    then show ?thesis using len by simp
  qed
  show ?thesis
  proof (intro conjI impI)
    show "length (Object_values containerMap) = card (container_key ` set containers)"
      by (rule len)
  next
    assume "containers = xs @ c # ys \<and> container_key c \<notin> container_key ` set ys"
    then show "get_property containerMap (container_key c) = Some (Id' c)"
      by (rule later)
  next
    assume "\<not> distinct (map container_key containers)"
    then show "length (Object_values containerMap) < length containers"
      using fewer len by simp
  next
    assume "getSelectedContainerResults w (Inr ''All'') containerMap = Fulfilled rows"
    then show "length rows = card (container_key ` set containers)"
      by (rule rows)
  next
    assume "getSelectedContainerResults w (Inr ''All'') containerMap = Fulfilled rows"
      and "\<not> distinct (map container_key containers)"
    then show "length rows < length containers"
      using fewer rows by simp
  qed
qed

theorem C10_later_name_wins_witness:
  "snd (getContainerMap demo_twins) = Inr [(''Unknown'', ''c3''), (''db'', ''b2'')]
   \<and> get_property [(''Unknown'', ''c3''), (''db'', ''b2'')] ''Unknown'' = Some ''c3''
   \<and> getSelectedContainerResults demo_twins (Inr ''All'') [(''Unknown'', ''c3''), (''db'', ''b2'')]
       = Fulfilled [(''api'', ''Retrieval failed'', ''Unknown''),
                    (''db'', ''Container exited'', ''Unknown'')]
   \<and> length [(''api'', ''Retrieval failed'', ''Unknown''), (''db'', ''Container exited'', ''Unknown'')]
       < length [\<lparr>Names = None, Id' = ''a1''\<rparr>, \<lparr>Names = Some [''/db''], Id' = ''b2''\<rparr>,
                 \<lparr>Names = Some [], Id' = ''c3''\<rparr>]"
proof -
  let ?cs = "[\<lparr>Names = None, Id' = ''a1''\<rparr>, \<lparr>Names = Some [''/db''], Id' = ''b2''\<rparr>,
              \<lparr>Names = Some [], Id' = ''c3''\<rparr>]"
  let ?cm = "[(''Unknown'', ''c3''), (''db'', ''b2'')]"
  let ?rows = "[(''api'', ''Retrieval failed'', ''Unknown''), (''db'', ''Container exited'', ''Unknown'')]"
  have l: "on_listContainers demo_twins = Inr ?cs"
    by (simp add: demo_twins_def)
  have m: "snd (getContainerMap demo_twins) = Inr ?cm"
    using getContainerMap_ok [OF l]
    by (simp add: Object_fromEntries_def container_key_def replace_slash_def)
  have k: "container_key \<lparr>Names = Some [], Id' = ''c3''\<rparr> = ''Unknown''"
    by (simp add: container_key_def)
  have v: "Object_values ?cm = [''c3'', ''b2'']"
    by (simp add: Object_values_plain is_array_index_def is_digit_def)
  have f: "getSelectedContainerResults demo_twins (Inr ''All'') ?cm = Fulfilled ?rows"
    by (simp add: batch_all v demo_twins_status demo_status_c3 demo_status_b2)
  have nd: "\<not> distinct (map container_key ?cs)"
    by (simp add: container_key_def replace_slash_def)
  have "get_property ?cm ''Unknown'' = Some ''c3''"
    using C10_later_name_wins [OF l m,
        of "[\<lparr>Names = None, Id' = ''a1''\<rparr>, \<lparr>Names = Some [''/db''], Id' = ''b2''\<rparr>]"
           "\<lparr>Names = Some [], Id' = ''c3''\<rparr>" "[]"] k
    by simp
  moreover have "length ?rows < length ?cs"
    using C10_later_name_wins [OF l m, of _ _ _ ?rows] f nd by simp
  ultimately show ?thesis using m f by simp
qed

end
